theory Spec2Isabelle
  imports Complex_Main "HOL-Library.Sublist" "HOL-Library.AList"
begin

section \<open>Context items\<close>

text \<open>
  A URI as the \<^verbatim>\<open>vscode-uri\<close> package holds it: scheme, authority and path
  (query and fragment play no role in the code under study).
\<close>

record URI =
  scheme :: string
  authority :: string
  path :: string

datatype ContextSource = Editor | Selection | Search | Embeddings | Unified

record Range =
  startLine :: nat
  startCharacter :: nat
  endLine :: nat
  endCharacter :: nat

text \<open>
  \<^verbatim>\<open>ContextItem\<close> of \<^verbatim>\<open>prompt-builder/types\<close>. The fields \<^verbatim>\<open>text\<close>, \<^verbatim>\<open>uri\<close>,
  \<^verbatim>\<open>range\<close> and \<^verbatim>\<open>source\<close> carry the prefix \<open>item\<close> here.
\<close>

record ContextItem =
  itemText :: string
  itemUri :: URI
  itemRange :: "Range option"
  itemSource :: ContextSource
  repoName :: "string option"
  title :: "string option"
  revision :: "string option"

section \<open>The context fusion engine: \<^verbatim>\<open>fuseContext\<close>\<close>

text \<open>
  One \<^verbatim>\<open>for (const item of items)\<close> loop of \<^verbatim>\<open>fuseContext\<close>. The loop state is the
  pair of the two mutable locals \<^verbatim>\<open>charsUsed\<close> and \<^verbatim>\<open>fused\<close>; \<open>limit\<close> is the bound
  the loop compares with (\<^verbatim>\<open>maxKeywordChars\<close> in the first loop, \<^verbatim>\<open>maxChars\<close> in the
  second). \<^verbatim>\<open>fused.push(item)\<close> appends at the end.
\<close>

fun fuseLoop :: "real \<Rightarrow> ContextItem list \<Rightarrow> nat \<times> ContextItem list \<Rightarrow> nat \<times> ContextItem list" where
  "fuseLoop limit [] (charsUsed, fused) = (charsUsed, fused)"
| "fuseLoop limit (item # items) (charsUsed, fused) =
     (let len = length (itemText item) in
      if real (charsUsed + len) \<le> limit
      then fuseLoop limit items (charsUsed + len, fused @ [item])
      else fuseLoop limit items (charsUsed, fused))"

text \<open>
  \<^verbatim>\<open>const maxKeywordChars = embeddingsItems.length > 0 ? maxChars * 0.8 : maxChars\<close>.
  \<^verbatim>\<open>maxChars\<close> is a JavaScript number; it is a real here, and \<open>0.8\<close> is the exact
  fraction (for an integer budget below \<open>2^50\<close> the rounding of the double product
  never changes a comparison with an integer character count).
\<close>

definition maxKeywordChars :: "ContextItem list \<Rightarrow> real \<Rightarrow> real" where
  "maxKeywordChars embeddingsItems maxChars =
     (if length embeddingsItems > 0 then maxChars * 0.8 else maxChars)"

text \<open>The loop state between the two loops: what the keyword loop has used and kept.\<close>

definition afterKeywordLoop :: "ContextItem list \<Rightarrow> ContextItem list \<Rightarrow> real \<Rightarrow> nat \<times> ContextItem list" where
  "afterKeywordLoop keywordItems embeddingsItems maxChars =
     fuseLoop (maxKeywordChars embeddingsItems maxChars) keywordItems (0, [])"

definition fuseContext :: "ContextItem list \<Rightarrow> ContextItem list \<Rightarrow> real \<Rightarrow> ContextItem list" where
  "fuseContext keywordItems embeddingsItems maxChars =
     snd (fuseLoop maxChars embeddingsItems
            (afterKeywordLoop keywordItems embeddingsItems maxChars))"

text \<open>The items of the fused list that the keyword loop pushed.\<close>

definition keywordPortion :: "ContextItem list \<Rightarrow> ContextItem list \<Rightarrow> real \<Rightarrow> ContextItem list" where
  "keywordPortion keywordItems embeddingsItems maxChars =
     snd (afterKeywordLoop keywordItems embeddingsItems maxChars)"

text \<open>The total character count of a list of items.\<close>

definition totalChars :: "ContextItem list \<Rightarrow> nat" where
  "totalChars items = sum_list (map (\<lambda>item. length (itemText item)) items)"

text \<open>
  Greedy first-fit in the words of the specification: go through the items in order
  with a running character count; an item is included exactly when the running count
  plus its length stays within the cap, and then counts; an item that would overflow
  is left out as a whole and the walk goes on with the next item.
\<close>

fun firstFit :: "real \<Rightarrow> nat \<Rightarrow> ContextItem list \<Rightarrow> ContextItem list" where
  "firstFit cap running [] = []"
| "firstFit cap running (item # items) =
     (if real (running + length (itemText item)) \<le> cap
      then item # firstFit cap (running + length (itemText item)) items
      else firstFit cap running items)"

definition isEmptyItem :: "ContextItem \<Rightarrow> bool" where
  "isEmptyItem item = (itemText item = [])"

text \<open>An item whose text is \<open>n\<close> copies of a character, as in the scenarios of the tests.\<close>

definition sampleUri :: URI where
  "sampleUri = \<lparr>scheme = ''file'', authority = [], path = ''/w/src/a.ts''\<rparr>"

definition itemOf :: "ContextSource \<Rightarrow> string \<Rightarrow> ContextItem" where
  "itemOf src t = \<lparr>itemText = t, itemUri = sampleUri, itemRange = None, itemSource = src,
     repoName = None, title = None, revision = None\<rparr>"

section \<open>JavaScript strings\<close>

text \<open>
  A JavaScript string is a \<open>string\<close> here: a list of characters, each a code unit
  below 256 (ASCII and Latin-1). \<^verbatim>\<open>s.length\<close> is \<open>length s\<close>.
\<close>

text \<open>
  White space as \<^verbatim>\<open>String.prototype.trim\<close> and the regular expression class
  \<^verbatim>\<open>\s\<close> take it, below 256: tab, line feed, vertical tab, form feed, carriage
  return, space and the no-break space.
\<close>

definition isSpaceChar :: "char \<Rightarrow> bool" where
  "isSpaceChar c =
     (c \<in> set [CHR 0x09, CHR 0x0A, CHR 0x0B, CHR 0x0C, CHR 0x0D, CHR 0x20, CHR 0xA0])"

definition trim :: "string \<Rightarrow> string" where
  "trim s = rev (dropWhile isSpaceChar (rev (dropWhile isSpaceChar s)))"

definition upperChars :: string where
  "upperChars = ''ABCDEFGHIJKLMNOPQRSTUVWXYZ'' @
     [CHR 0xC0, CHR 0xC1, CHR 0xC2, CHR 0xC3, CHR 0xC4, CHR 0xC5, CHR 0xC6, CHR 0xC7,
      CHR 0xC8, CHR 0xC9, CHR 0xCA, CHR 0xCB, CHR 0xCC, CHR 0xCD, CHR 0xCE, CHR 0xCF,
      CHR 0xD0, CHR 0xD1, CHR 0xD2, CHR 0xD3, CHR 0xD4, CHR 0xD5, CHR 0xD6,
      CHR 0xD8, CHR 0xD9, CHR 0xDA, CHR 0xDB, CHR 0xDC, CHR 0xDD, CHR 0xDE]"

definition lowerChars :: string where
  "lowerChars = ''abcdefghijklmnopqrstuvwxyz'' @
     [CHR 0xE0, CHR 0xE1, CHR 0xE2, CHR 0xE3, CHR 0xE4, CHR 0xE5, CHR 0xE6, CHR 0xE7,
      CHR 0xE8, CHR 0xE9, CHR 0xEA, CHR 0xEB, CHR 0xEC, CHR 0xED, CHR 0xEE, CHR 0xEF,
      CHR 0xF0, CHR 0xF1, CHR 0xF2, CHR 0xF3, CHR 0xF4, CHR 0xF5, CHR 0xF6,
      CHR 0xF8, CHR 0xF9, CHR 0xFA, CHR 0xFB, CHR 0xFC, CHR 0xFD, CHR 0xFE]"

definition toLowerChar :: "char \<Rightarrow> char" where
  "toLowerChar c = (case map_of (zip upperChars lowerChars) c of Some l \<Rightarrow> l | None \<Rightarrow> c)"

text \<open>\<^verbatim>\<open>toLowerCase\<close>, and \<^verbatim>\<open>toLocaleLowerCase\<close> in a locale without special casing.\<close>

definition toLowerCase :: "string \<Rightarrow> string" where
  "toLowerCase s = map toLowerChar s"

text \<open>\<^verbatim>\<open>s.indexOf(c)\<close> for a single character; \<open>None\<close> is the result \<^verbatim>\<open>-1\<close>.\<close>

fun indexOf :: "string \<Rightarrow> char \<Rightarrow> nat option" where
  "indexOf [] c = None"
| "indexOf (d # ds) c =
     (if d = c then Some 0 else (case indexOf ds c of None \<Rightarrow> None | Some i \<Rightarrow> Some (Suc i)))"

text \<open>
  \<^verbatim>\<open>s.split(sep)\<close> for a one-character separator: \<open>cur\<close> is the piece being read.
  The result has one piece more than \<open>s\<close> has separators, so it is never empty.
\<close>

fun splitChar :: "char \<Rightarrow> string \<Rightarrow> string \<Rightarrow> string list" where
  "splitChar sep cur [] = [cur]"
| "splitChar sep cur (c # cs) =
     (if c = sep then cur # splitChar sep [] cs else splitChar sep (cur @ [c]) cs)"

text \<open>The class \<^verbatim>\<open>\w\<close>: ASCII letters, digits and the underscore.\<close>

definition isWordChar :: "char \<Rightarrow> bool" where
  "isWordChar c =
     (c \<in> set ''ABCDEFGHIJKLMNOPQRSTUVWXYZabcdefghijklmnopqrstuvwxyz0123456789_'')"

text \<open>
  \<^verbatim>\<open>s.split(/\W+/)\<close>: the pieces between the maximal runs of characters outside
  \<^verbatim>\<open>\w\<close>. \<open>cur\<close> is the piece being read and \<open>inRun\<close> says that the previous
  character belonged to a separator run. A separator run at the start or the end
  of \<open>s\<close> gives an empty piece there, as in JavaScript.
\<close>

fun splitNonWord :: "string \<Rightarrow> bool \<Rightarrow> string \<Rightarrow> string list" where
  "splitNonWord cur inRun [] = [cur]"
| "splitNonWord cur inRun (c # cs) =
     (if isWordChar c then splitNonWord (cur @ [c]) False cs
      else if inRun then splitNonWord cur True cs
      else cur # splitNonWord [] True cs)"

text \<open>
  The fragment of regular expressions that \<^verbatim>\<open>userAttentionRegexps\<close> uses: a literal
  word, \<^verbatim>\<open>\s+\<close>, alternation, sequence and \<^verbatim>\<open>(r)?\<close>.
\<close>

datatype regexp = Lit string | Spaces1 | Alt regexp regexp | Seq regexp regexp | Opt regexp

text \<open>What is left of \<open>s\<close> after one or more white-space characters, every way.\<close>

fun spaces1 :: "string \<Rightarrow> string list" where
  "spaces1 [] = []"
| "spaces1 (c # cs) = (if isSpaceChar c then cs # spaces1 cs else [])"

text \<open>\<open>rests r s\<close>: what is left of \<open>s\<close> after a match of \<open>r\<close> at its start, every way.\<close>

fun rests :: "regexp \<Rightarrow> string \<Rightarrow> string list" where
  "rests (Lit w) s = (if prefix w s then [drop (length w) s] else [])"
| "rests Spaces1 s = spaces1 s"
| "rests (Alt a b) s = rests a s @ rests b s"
| "rests (Seq a b) s = concat (map (rests b) (rests a s))"
| "rests (Opt a) s = rests a s @ [s]"

text \<open>
  \<^verbatim>\<open>s.match(r)\<close> as a truth value (the expressions have no flags): \<open>r\<close> matches
  somewhere in \<open>s\<close>.
\<close>

definition regexpMatches :: "regexp \<Rightarrow> string \<Rightarrow> bool" where
  "regexpMatches r s = list_ex (\<lambda>t. rests r t \<noteq> []) (suffixes s)"

section \<open>The editor and the workspace\<close>

text \<open>A thrown value or the reason of a rejected promise.\<close>

datatype error = Error string

text \<open>
  \<^verbatim>\<open>new vscode.Range(startLine, startCharacter, endLine, endCharacter)\<close>: the
  constructor swaps the two positions when the first lies behind the second.
\<close>

definition mkRange :: "nat \<Rightarrow> nat \<Rightarrow> nat \<Rightarrow> nat \<Rightarrow> Range" where
  "mkRange sl sc el ec =
     (if el < sl \<or> (el = sl \<and> ec < sc)
      then \<lparr>startLine = el, startCharacter = ec, endLine = sl, endCharacter = sc\<rparr>
      else \<lparr>startLine = sl, startCharacter = sc, endLine = el, endCharacter = ec\<rparr>)"

record ActiveTextEditorSelection =
  selectionFileUri :: URI
  selectedText :: string
  selectionRange :: "Range option"

record ActiveTextEditorVisibleContent =
  content :: string
  visibleFileUri :: "URI option"

text \<open>
  The editor as one query sees it: what each of its methods returns.
  \<^verbatim>\<open>getTextEditorContentForFile\<close> is asynchronous and may reject or give
  \<^verbatim>\<open>undefined\<close>.
\<close>

record VSCodeEditor =
  getWorkspaceRootUri :: "URI option"
  getActiveTextEditorSelection :: "ActiveTextEditorSelection option"
  getActiveTextEditorVisibleContent :: "ActiveTextEditorVisibleContent option"
  getTextEditorContentForFile :: "URI \<Rightarrow> Range \<Rightarrow> error + string option"

text \<open>
  What \<^verbatim>\<open>getReadmeContext\<close> reads from outside: the outcome of
  \<^verbatim>\<open>vscode.workspace.findFiles(readmeGlobalPattern, undefined, 1)\<close>, the text of an
  opened document, and \<^verbatim>\<open>truncateTextNearestLine(text, MAX_BYTES_PER_FILE)\<close> of the
  shared library with its range already through \<^verbatim>\<open>viewRangeToRange\<close>.
\<close>

record Workspace =
  findFiles :: "error + URI list"
  openTextDocument :: "URI \<Rightarrow> error + string"
  truncateTextNearestLine :: "string \<Rightarrow> string \<times> Range option"

text \<open>
  \<^verbatim>\<open>uri.toString()\<close> for a URI whose parts need no percent-encoding: the scheme, then
  \<^verbatim>\<open>//\<close> when there is an authority or the scheme is \<^verbatim>\<open>file\<close>, the authority and
  the path.
\<close>

definition uriToString :: "URI \<Rightarrow> string" where
  "uriToString u =
     scheme u @ '':'' @ (if authority u \<noteq> [] \<or> scheme u = ''file'' then ''//'' else [])
     @ authority u @ path u"

text \<open>
  Modelled from the spec: \<^verbatim>\<open>uriBasename\<close> of \<^verbatim>\<open>common/uri\<close>, which is not among the
  sources. It is the basename of the URI's path: the last segment, slashes at the end
  not counted.
\<close>

definition uriBasename :: "URI \<Rightarrow> string" where
  "uriBasename u =
     rev (takeWhile (\<lambda>c. c \<noteq> CHR ''/'') (dropWhile (\<lambda>c. c = CHR ''/'') (rev (path u))))"

section \<open>Priority context\<close>

definition userAttentionRegexps :: "regexp list" where
  "userAttentionRegexps =
     [Lit ''editor'',
      Seq (Alt (Lit ''open'') (Alt (Lit ''current'') (Alt (Lit ''this'') (Lit ''entire''))))
        (Seq Spaces1 (Lit ''file'')),
      Seq (Lit ''current'') (Seq (Opt (Lit ''ly'')) (Seq Spaces1 (Lit ''open''))),
      Seq (Lit ''have'') (Seq Spaces1 (Lit ''open''))]"

definition getCurrentSelectionContext :: "VSCodeEditor \<Rightarrow> ContextItem list" where
  "getCurrentSelectionContext editor =
     (case getActiveTextEditorSelection editor of
        None \<Rightarrow> []
      | Some selection \<Rightarrow>
          if selectedText selection = [] then []
          else [\<lparr>itemText = selectedText selection,
                 itemUri = selectionFileUri selection,
                 itemRange = (case selectionRange selection of
                                None \<Rightarrow> None
                              | Some r \<Rightarrow> Some (mkRange (startLine r) (startCharacter r)
                                                  (endLine r) (endCharacter r))),
                 itemSource = Selection,
                 repoName = None, title = None, revision = None\<rparr>])"

definition getVisibleEditorContext :: "VSCodeEditor \<Rightarrow> ContextItem list" where
  "getVisibleEditorContext editor =
     (case getActiveTextEditorVisibleContent editor of
        None \<Rightarrow> []
      | Some visible \<Rightarrow>
          (case visibleFileUri visible of
             None \<Rightarrow> []
           | Some fileUri \<Rightarrow>
               if trim (content visible) = [] then []
               else [\<lparr>itemText = content visible, itemUri = fileUri, itemRange = None,
                      itemSource = Editor,
                      repoName = None, title = None, revision = None\<rparr>]))"

definition needsUserAttentionContext :: "string \<Rightarrow> bool" where
  "needsUserAttentionContext input =
     (let inputLowerCase = toLowerCase input
      in list_ex (\<lambda>regexp. regexpMatches regexp inputLowerCase) userAttentionRegexps)"

definition extractQuestion :: "string \<Rightarrow> string option" where
  "extractQuestion input0 =
     (let input = trim input0 in
      case indexOf input CHR ''?'' of
        Some q \<Rightarrow> Some (trim (take (q + 1) input))
      | None \<Rightarrow> if length input < 100 then Some input else None)"

text \<open>
  \<^verbatim>\<open>bagOfWords[p]\<close> as a truth value. \<^verbatim>\<open>bagOfWords\<close> is a plain object with one own
  property per word, so a lookup also finds what every object inherits; of the
  inherited names only \<^verbatim>\<open>constructor\<close> and \<^verbatim>\<open>__proto__\<close> are in lower case, and
  both are truthy.
\<close>

definition bagOfWords :: "string list \<Rightarrow> string \<Rightarrow> bool" where
  "bagOfWords words p = (p \<in> set words \<or> p \<in> set [''constructor'', ''__proto__''])"

definition projectSignifiers :: "VSCodeEditor \<Rightarrow> string list" where
  "projectSignifiers editor =
     [''project'', ''repository'', ''repo'', ''library'', ''package'', ''module'', ''codebase'']
     @ (case getWorkspaceRootUri editor of
          None \<Rightarrow> []
        | Some workspaceUri \<Rightarrow>
            (let rootBase = last (splitChar CHR ''/'' [] (uriToString workspaceUri))
             in if rootBase \<noteq> [] then [toLowerCase rootBase] else []))"

definition questionIndicators :: "string list" where
  "questionIndicators = [''what'', ''how'', ''describe'', ''explain'', ''?'']"

definition needsReadmeContext :: "VSCodeEditor \<Rightarrow> string \<Rightarrow> bool" where
  "needsReadmeContext editor input0 =
     (let input = toLowerCase input0;
          question = extractQuestion input
      in if question = None \<or> question = Some [] then False
         else
           (let words = filter (\<lambda>w. length w > 0) (splitNonWord [] False input);
                containsProjectSignifier = list_ex (bagOfWords words) (projectSignifiers editor);
                containsQuestionIndicator = list_ex (bagOfWords words) questionIndicators
            in containsQuestionIndicator \<and> containsProjectSignifier))"

definition getReadmeContext :: "Workspace \<Rightarrow> error + ContextItem list" where
  "getReadmeContext ws =
     (case findFiles ws of
        Inl e \<Rightarrow> Inl e
      | Inr uris \<Rightarrow>
          (case uris of
             [] \<Rightarrow> Inr []
           | readmeUri # _ \<Rightarrow>
               if path readmeUri = [] then Inr []
               else
                 (case openTextDocument ws readmeUri of
                    Inl e \<Rightarrow> Inl e
                  | Inr readmeText \<Rightarrow>
                      (let (truncatedReadmeText, range) = truncateTextNearestLine ws readmeText
                       in if length truncatedReadmeText = 0 then Inr []
                          else Inr [\<lparr>itemText = truncatedReadmeText, itemUri = readmeUri,
                                     itemRange = range, itemSource = Editor,
                                     repoName = None, title = None, revision = None\<rparr>]))))"

text \<open>The loop of \<^verbatim>\<open>getPriorityContext\<close> that looks for a README among the retrieved items.\<close>

fun containsREADME :: "ContextItem list \<Rightarrow> bool" where
  "containsREADME [] = False"
| "containsREADME (contextItem # rest) =
     (let basename = uriBasename (itemUri contextItem) in
      if toLowerCase basename = ''readme'' \<or> prefix ''readme.'' (toLowerCase basename)
      then True
      else containsREADME rest)"

definition getPriorityContext ::
  "string \<Rightarrow> VSCodeEditor \<Rightarrow> Workspace \<Rightarrow> ContextItem list \<Rightarrow> error + ContextItem list" where
  "getPriorityContext input editor ws retrievedContext =
     (let selectionContext = getCurrentSelectionContext editor in
      if length selectionContext > 0 then Inr selectionContext
      else if needsUserAttentionContext input then Inr (getVisibleEditorContext editor)
      else if needsReadmeContext editor input then
        (if \<not> containsREADME retrievedContext then getReadmeContext ws else Inr [])
      else Inr [])"

text \<open>Which branch of \<^verbatim>\<open>getPriorityContext\<close> a query takes.\<close>

datatype PriorityBranch = SelectionBranch | UserAttentionBranch | ReadmeBranch | NoBranch

definition priorityBranch :: "string \<Rightarrow> VSCodeEditor \<Rightarrow> PriorityBranch" where
  "priorityBranch input editor =
     (if length (getCurrentSelectionContext editor) > 0 then SelectionBranch
      else if needsUserAttentionContext input then UserAttentionBranch
      else if needsReadmeContext editor input then ReadmeBranch
      else NoBranch)"

section \<open>Context providers and the fused retrieval\<close>

datatype ConfigurationUseContext = UseEmbeddings | UseKeyword | UseNone | UseBlended | UseUnified

record EmbeddingsSearchResult =
  embUri :: URI
  embStartLine :: nat
  embEndLine :: nat
  embContent :: string

record RemoteSearchResult =
  remContent :: string
  remStartLine :: nat
  remEndLine :: nat
  remUri :: URI
  remRepoName :: string
  remPath :: string
  remCommit :: string

text \<open>A result of symf: the file and \<^verbatim>\<open>range.startPoint\<close>, \<^verbatim>\<open>range.endPoint\<close>.\<close>

record SymfResult =
  symfFile :: URI
  startRow :: nat
  startCol :: nat
  endRow :: nat
  endCol :: nat

text \<open>
  The symf runner: \<^verbatim>\<open>getIndexStatus(root)\<close> may reject; \<^verbatim>\<open>getResults(text, roots)\<close>
  is a promise of a list of promises, each of which may reject.
  \<^verbatim>\<open>ensureIndex\<close> is started and never awaited, so it has no part in a result.
\<close>

record SymfRunner =
  getIndexStatus :: "URI \<Rightarrow> error + string"
  getResults :: "string \<Rightarrow> URI list \<Rightarrow> error + (error + SymfResult list) list"

text \<open>
  The three providers, each possibly \<^verbatim>\<open>null\<close>. \<^verbatim>\<open>localEmbeddings.getContext\<close> is
  called with the text and the constant \<^verbatim>\<open>NUM_CODE_RESULTS + NUM_TEXT_RESULTS\<close> of the
  shared library; \<^verbatim>\<open>remoteSearch.query\<close> with the text. Either may reject.
\<close>

record Providers =
  localEmbeddings :: "(string \<Rightarrow> error + EmbeddingsSearchResult list) option"
  symf :: "SymfRunner option"
  remoteSearch :: "(string \<Rightarrow> error + RemoteSearchResult list) option"

record GetEnhancedContextOptions =
  optStrategy :: ConfigurationUseContext
  optEditor :: VSCodeEditor
  optText :: string
  optProviders :: Providers
  optInternalUnstable :: bool
  optMaxChars :: real

text \<open>
  The process environment: \<^verbatim>\<open>CODY_SHIM_TESTING === 'true'\<close>, and the collation
  \<^verbatim>\<open>a.localeCompare(b)\<close> that the test-mode sort compares with (negative, zero or
  positive).
\<close>

record Env =
  isAgentTesting :: bool
  localeCompare :: "string \<Rightarrow> string \<Rightarrow> int"

definition searchRemote ::
  "(string \<Rightarrow> error + RemoteSearchResult list) option \<Rightarrow> string \<Rightarrow> error + ContextItem list" where
  "searchRemote remote userText =
     (case remote of
        None \<Rightarrow> Inr []
      | Some query \<Rightarrow>
          (case query userText of
             Inl e \<Rightarrow> Inl e
           | Inr results \<Rightarrow>
               Inr (map (\<lambda>result.
                      \<lparr>itemText = remContent result,
                       itemUri = remUri result,
                       itemRange = Some (mkRange (remStartLine result) 0 (remEndLine result) 0),
                       itemSource = Unified,
                       repoName = Some (remRepoName result),
                       title = Some (remPath result),
                       revision = Some (remCommit result)\<rparr>) results)))"

definition isFileURI :: "URI \<Rightarrow> bool" where
  "isFileURI u = (scheme u = ''file'')"

text \<open>
  The inner callback of \<^verbatim>\<open>searchSymf\<close> for one result: the text of the range, and no
  item when reading it fails (the error is caught and logged) or gives nothing.
\<close>

definition symfResultItems :: "VSCodeEditor \<Rightarrow> SymfResult \<Rightarrow> ContextItem list" where
  "symfResultItems editor result =
     (let range = mkRange (startRow result) (startCol result) (endRow result) (endCol result)
      in case getTextEditorContentForFile editor (symfFile result) range of
           Inl e \<Rightarrow> []
         | Inr None \<Rightarrow> []
         | Inr (Some t) \<Rightarrow>
             if t = [] then []
             else [\<lparr>itemText = t, itemUri = symfFile result, itemRange = Some range,
                    itemSource = Search,
                    repoName = None, title = None, revision = None\<rparr>])"

text \<open>
  \<^verbatim>\<open>(await Promise.all(ps)).flat()\<close> over promises of lists: the first rejection, else
  the lists one after the other.
\<close>

fun allFlat :: "(error + 'a list) list \<Rightarrow> error + 'a list" where
  "allFlat [] = Inr []"
| "allFlat (Inl e # ps) = Inl e"
| "allFlat (Inr xs # ps) = (case allFlat ps of Inl e \<Rightarrow> Inl e | Inr ys \<Rightarrow> Inr (xs @ ys))"

text \<open>
  \<^verbatim>\<open>allResults.sort(compare)\<close> with the comparison of the test mode: by
  \<^verbatim>\<open>uri.fsPath\<close> (the path here), then by text. The sort is stable: an item goes
  behind the items that do not compare greater.
\<close>

definition compareItems :: "Env \<Rightarrow> ContextItem \<Rightarrow> ContextItem \<Rightarrow> int" where
  "compareItems env a b =
     (let byUri = localeCompare env (path (itemUri a)) (path (itemUri b))
      in if byUri \<noteq> 0 then byUri else localeCompare env (itemText a) (itemText b))"

fun insertItem :: "Env \<Rightarrow> ContextItem \<Rightarrow> ContextItem list \<Rightarrow> ContextItem list" where
  "insertItem env x [] = [x]"
| "insertItem env x (y # ys) =
     (if compareItems env y x \<le> 0 then y # insertItem env x ys else x # y # ys)"

definition sortItems :: "Env \<Rightarrow> ContextItem list \<Rightarrow> ContextItem list" where
  "sortItems env items = foldl (\<lambda>sorted x. insertItem env x sorted) [] items"

definition searchSymf ::
  "Env \<Rightarrow> SymfRunner option \<Rightarrow> VSCodeEditor \<Rightarrow> string \<Rightarrow> bool \<Rightarrow> error + ContextItem list" where
  "searchSymf env runner editor userText blockOnIndex =
     (case runner of
        None \<Rightarrow> Inr []
      | Some symfRunner \<Rightarrow>
          (case getWorkspaceRootUri editor of
             None \<Rightarrow> Inr []
           | Some workspaceRoot \<Rightarrow>
               if \<not> isFileURI workspaceRoot then Inr []
               else
                 (case getIndexStatus symfRunner workspaceRoot of
                    Inl e \<Rightarrow> Inl e
                  | Inr indexExists \<Rightarrow>
                      if indexExists \<noteq> ''ready'' \<and> \<not> blockOnIndex then Inr []
                      else
                        (case getResults symfRunner userText [workspaceRoot] of
                           Inl e \<Rightarrow> Inl e
                         | Inr promises \<Rightarrow>
                             (let r0 = map (\<lambda>results.
                                        case results of
                                          Inl e \<Rightarrow> Inl e
                                        | Inr rs \<Rightarrow> Inr (concat (map (symfResultItems editor) rs)))
                                      promises
                              in case allFlat r0 of
                                   Inl e \<Rightarrow> Inl e
                                 | Inr allResults \<Rightarrow>
                                     Inr (if isAgentTesting env then sortItems env allResults
                                          else allResults))))))"

definition searchEmbeddingsLocal ::
  "(string \<Rightarrow> error + EmbeddingsSearchResult list) option \<Rightarrow> string \<Rightarrow> error + ContextItem list" where
  "searchEmbeddingsLocal embeddings input =
     (case embeddings of
        None \<Rightarrow> Inr []
      | Some getContext \<Rightarrow>
          (case getContext input of
             Inl e \<Rightarrow> Inl e
           | Inr embeddingsResults \<Rightarrow>
               Inr (map (\<lambda>result.
                      \<lparr>itemText = embContent result,
                       itemUri = embUri result,
                       itemRange = Some (mkRange (embStartLine result) 0 (embEndLine result) 0),
                       itemSource = Embeddings,
                       repoName = None, title = None, revision = None\<rparr>) embeddingsResults)))"

text \<open>
  \<^verbatim>\<open>retrieveContextGracefully\<close>: the settled promise is the argument; a rejection is
  caught (and logged) and the result is the empty list.
\<close>

definition retrieveContextGracefully :: "error + 'a list \<Rightarrow> 'a list" where
  "retrieveContextGracefully promise = (case promise of Inl e \<Rightarrow> [] | Inr items \<Rightarrow> items)"

definition getEnhancedContextFused ::
  "Env \<Rightarrow> Workspace \<Rightarrow> GetEnhancedContextOptions \<Rightarrow> error + ContextItem list" where
  "getEnhancedContextFused env ws opts =
     (if optStrategy opts = UseNone then Inr (getVisibleEditorContext (optEditor opts))
      else
        (let embeddingsContextItems =
               (if optStrategy opts \<noteq> UseKeyword
                then retrieveContextGracefully
                       (searchEmbeddingsLocal (localEmbeddings (optProviders opts)) (optText opts))
                else []);
             localSearchContextItems =
               (if symf (optProviders opts) \<noteq> None \<and> optStrategy opts \<noteq> UseEmbeddings
                then retrieveContextGracefully
                       (searchSymf env (symf (optProviders opts)) (optEditor opts) (optText opts) False)
                else []);
             remoteSearchContextItems =
               (if remoteSearch (optProviders opts) \<noteq> None \<and> optStrategy opts \<noteq> UseEmbeddings
                then retrieveContextGracefully
                       (searchRemote (remoteSearch (optProviders opts)) (optText opts))
                else []);
             keywordContextItems = localSearchContextItems @ remoteSearchContextItems;
             fusedContext = fuseContext keywordContextItems embeddingsContextItems (optMaxChars opts)
         in case getPriorityContext (optText opts) (optEditor opts) ws fusedContext of
              Inl e \<Rightarrow> Inl e
            | Inr priorityContext \<Rightarrow> Inr (priorityContext @ fusedContext)))"

section \<open>The retrieval in the words of the specification\<close>

text \<open>
  The result list of a provider call that succeeded; a call that failed counts as
  the empty list.
\<close>

definition resultsIfSucceeded :: "error + 'a list \<Rightarrow> 'a list" where
  "resultsIfSucceeded outcome = (if isl outcome then [] else projr outcome)"

text \<open>
  The fusion of the results of the providers that succeeded: the embeddings provider
  is asked unless the strategy is \<^verbatim>\<open>keyword\<close>, local search and remote search (in this
  order) unless the strategy is \<^verbatim>\<open>embeddings\<close>.
\<close>

definition fusionOfSucceeded :: "Env \<Rightarrow> GetEnhancedContextOptions \<Rightarrow> ContextItem list" where
  "fusionOfSucceeded env opts =
     fuseContext
       ((if optStrategy opts = UseEmbeddings then []
         else resultsIfSucceeded
                (searchSymf env (symf (optProviders opts)) (optEditor opts) (optText opts) False))
        @ (if optStrategy opts = UseEmbeddings then []
           else resultsIfSucceeded
                  (searchRemote (remoteSearch (optProviders opts)) (optText opts))))
       (if optStrategy opts = UseKeyword then []
        else resultsIfSucceeded
               (searchEmbeddingsLocal (localEmbeddings (optProviders opts)) (optText opts)))
       (optMaxChars opts)"

text \<open>Providers that answer every query with no result.\<close>

definition emptyEmbeddings :: "(string \<Rightarrow> error + EmbeddingsSearchResult list) option" where
  "emptyEmbeddings = Some (\<lambda>input. Inr [])"

definition emptyRemoteSearch :: "(string \<Rightarrow> error + RemoteSearchResult list) option" where
  "emptyRemoteSearch = Some (\<lambda>input. Inr [])"

definition emptySymf :: "SymfRunner option" where
  "emptySymf = Some \<lparr>getIndexStatus = (\<lambda>root. Inr ''ready''),
                      getResults = (\<lambda>input roots. Inr [])\<rparr>"

section \<open>Sample inputs\<close>

definition noEnv :: Env where
  "noEnv = \<lparr>isAgentTesting = False, localeCompare = (\<lambda>a b. 0)\<rparr>"

definition readmeUri0 :: URI where
  "readmeUri0 = \<lparr>scheme = ''file'', authority = [], path = ''/w/myrepo/README.md''\<rparr>"

text \<open>A workspace with a README of one line that needs no truncation.\<close>

definition sampleWorkspace :: Workspace where
  "sampleWorkspace =
     \<lparr>findFiles = Inr [readmeUri0],
      openTextDocument = (\<lambda>u. Inr ''# My repo''),
      truncateTextNearestLine = (\<lambda>t. (t, None))\<rparr>"

text \<open>An editor in the workspace folder \<^verbatim>\<open>myrepo\<close> with nothing selected and nothing visible.\<close>

definition idleEditor :: VSCodeEditor where
  "idleEditor =
     \<lparr>getWorkspaceRootUri = Some \<lparr>scheme = ''file'', authority = [], path = ''/w/myrepo''\<rparr>,
      getActiveTextEditorSelection = None,
      getActiveTextEditorVisibleContent = None,
      getTextEditorContentForFile = (\<lambda>u r. Inr None)\<rparr>"

text \<open>The same editor with the word \<^verbatim>\<open>foo\<close> selected in a visible file.\<close>

definition selectingEditor :: VSCodeEditor where
  "selectingEditor =
     \<lparr>getWorkspaceRootUri = Some \<lparr>scheme = ''file'', authority = [], path = ''/w/myrepo''\<rparr>,
      getActiveTextEditorSelection =
        Some \<lparr>selectionFileUri = sampleUri, selectedText = ''foo'',
              selectionRange = Some \<lparr>startLine = 3, startCharacter = 0,
                                      endLine = 3, endCharacter = 3\<rparr>\<rparr>,
      getActiveTextEditorVisibleContent =
        Some \<lparr>content = ''let foo = 1'', visibleFileUri = Some sampleUri\<rparr>,
      getTextEditorContentForFile = (\<lambda>u r. Inr None)\<rparr>"

definition sampleRemoteResult :: RemoteSearchResult where
  "sampleRemoteResult =
     \<lparr>remContent = ''remote hit'', remStartLine = 1, remEndLine = 2, remUri = sampleUri,
      remRepoName = ''github.com/a/b'', remPath = ''src/a.ts'', remCommit = ''abc''\<rparr>"

text \<open>
  A query whose embeddings provider rejects, with no symf runner and a remote search
  that gives one result.
\<close>

definition sampleOptions :: GetEnhancedContextOptions where
  "sampleOptions =
     \<lparr>optStrategy = UseBlended,
      optEditor = idleEditor,
      optText = ''hello'',
      optProviders = \<lparr>localEmbeddings = Some (\<lambda>input. Inl (Error ''index not loaded'')),
                       symf = None,
                       remoteSearch = Some (\<lambda>input. Inr [sampleRemoteResult])\<rparr>,
      optInternalUnstable = True,
      optMaxChars = 100\<rparr>"

section \<open>The feature flag provider\<close>

text \<open>
  \<^verbatim>\<open>Record<string, boolean>\<close>: the own properties of an object in insertion order
  (flag names are not array indices, which JavaScript would enumerate first).
\<close>

type_synonym FlagRecord = "(string \<times> bool) list"

text \<open>\<^verbatim>\<open>JSON.stringify\<close> of a string: quotes, with the escapes of \<^verbatim>\<open>QuoteJSONString\<close>.\<close>

definition hexDigit :: "nat \<Rightarrow> char" where
  "hexDigit n = ''0123456789abcdef'' ! (n mod 16)"

definition quoteJSONChar :: "char \<Rightarrow> string" where
  "quoteJSONChar c =
     (if c = CHR 0x22 then [CHR 0x5C, CHR 0x22]
      else if c = CHR 0x5C then [CHR 0x5C, CHR 0x5C]
      else if c = CHR 0x08 then [CHR 0x5C, CHR ''b'']
      else if c = CHR 0x0C then [CHR 0x5C, CHR ''f'']
      else if c = CHR 0x0A then [CHR 0x5C, CHR ''n'']
      else if c = CHR 0x0D then [CHR 0x5C, CHR ''r'']
      else if c = CHR 0x09 then [CHR 0x5C, CHR ''t'']
      else if (of_char c :: nat) < 32
      then [CHR 0x5C, CHR ''u'', CHR ''0'', CHR ''0'',
            hexDigit ((of_char c :: nat) div 16), hexDigit (of_char c :: nat)]
      else [c])"

definition quoteJSONString :: "string \<Rightarrow> string" where
  "quoteJSONString s = [CHR 0x22] @ concat (map quoteJSONChar s) @ [CHR 0x22]"

fun joinComma :: "string list \<Rightarrow> string" where
  "joinComma [] = []"
| "joinComma [s] = s"
| "joinComma (s # t # ts) = s @ '','' @ joinComma (t # ts)"

text \<open>\<^verbatim>\<open>JSON.stringify\<close> of an object whose values are booleans.\<close>

definition JSON_stringify :: "FlagRecord \<Rightarrow> string" where
  "JSON_stringify flags =
     ''{'' @ joinComma (map (\<lambda>(k, v). quoteJSONString k @ '':'' @ (if v then ''true'' else ''false''))
                         flags) @ ''}''"

text \<open>
  One entry of the \<^verbatim>\<open>subscriptions\<close> map. A callback is known by its identity (a
  number); \<^verbatim>\<open>callbacks\<close> is a \<^verbatim>\<open>Set\<close>: insertion order, no duplicates. \<open>subId\<close> is the
  identity of the entry object, by which a closure keeps hold of it.
\<close>

record Subscription =
  subId :: nat
  lastSnapshot :: string
  callbacks :: "nat list"

text \<open>
  The two closures the class passes to \<^verbatim>\<open>setTimeout\<close>: the one of
  \<^verbatim>\<open>onFeatureFlagChanged\<close> resets \<^verbatim>\<open>nextRefreshTimeout\<close> and refreshes, the one of
  \<^verbatim>\<open>refreshFeatureFlags\<close> only refreshes.
\<close>

datatype TimerAction = ClearAndRefresh | RefreshOnly

text \<open>
  The provider object with the part of the world it acts on: the four fields of the
  class, the timers that are armed and have neither fired nor been cleared, the
  list of callbacks called so far, the endpoints of the refreshes that wait for the
  server, and the counters that give timers and subscription objects their
  identities (a timer id is never \<open>0\<close>, so it is truthy).
\<close>

record FeatureFlagProvider =
  featureFlags :: "(string \<times> FlagRecord) list"
  lastUpdated :: int
  subscriptions :: "(string \<times> Subscription) list"
  nextRefreshTimeout :: "nat option"
  pendingTimers :: "(nat \<times> TimerAction) list"
  notified :: "nat list"
  refreshesInFlight :: "string list"
  nextTimerId :: nat
  nextSubId :: nat

definition newFeatureFlagProvider :: FeatureFlagProvider where
  "newFeatureFlagProvider =
     \<lparr>featureFlags = [], lastUpdated = 0, subscriptions = [], nextRefreshTimeout = None,
      pendingTimers = [], notified = [], refreshesInFlight = [],
      nextTimerId = 1, nextSubId = 0\<rparr>"

definition ONE_HOUR :: int where
  "ONE_HOUR = 60 * 60 * 1000"

text \<open>What the server answers to \<^verbatim>\<open>evaluateFeatureFlag\<close> and to \<^verbatim>\<open>getEvaluatedFeatureFlags\<close>.\<close>

datatype RemoteFlag = FlagValue bool | FlagNull | FlagError string

datatype RemoteFlags = FlagsData FlagRecord | FlagsError string

text \<open>The function that \<^verbatim>\<open>onFeatureFlagChanged\<close> returns: one of its two closures.\<close>

datatype Unsubscribe =
    DeleteFromSubscription nat nat
  | DeleteByKey string nat

text \<open>\<^verbatim>\<open>setTimeout(action, ONE_HOUR)\<close>, stored in \<^verbatim>\<open>nextRefreshTimeout\<close>.\<close>

definition armRefreshTimeout :: "TimerAction \<Rightarrow> FeatureFlagProvider \<Rightarrow> FeatureFlagProvider" where
  "armRefreshTimeout action st =
     st\<lparr>nextRefreshTimeout := Some (nextTimerId st),
        pendingTimers := pendingTimers st @ [(nextTimerId st, action)],
        nextTimerId := Suc (nextTimerId st)\<rparr>"

text \<open>
  \<^verbatim>\<open>if (this.nextRefreshTimeout) { clearTimeout(this.nextRefreshTimeout);
  this.nextRefreshTimeout = undefined }\<close>.
\<close>

definition clearRefreshTimeout :: "FeatureFlagProvider \<Rightarrow> FeatureFlagProvider" where
  "clearRefreshTimeout st =
     (case nextRefreshTimeout st of
        None \<Rightarrow> st
      | Some timer \<Rightarrow>
          st\<lparr>pendingTimers := filter (\<lambda>(i, a). i \<noteq> timer) (pendingTimers st),
             nextRefreshTimeout := None\<rparr>)"

definition computeFeatureFlagSnapshot ::
  "(string \<times> FlagRecord) list \<Rightarrow> string \<Rightarrow> string \<Rightarrow> string" where
  "computeFeatureFlagSnapshot flagsByEndpoint endpoint prefixFilter =
     (case map_of flagsByEndpoint endpoint of
        None \<Rightarrow> []
      | Some flags \<Rightarrow>
          (let filteredFeatureFlags = filter (\<lambda>(key, v). prefix prefixFilter key) flags
           in JSON_stringify filteredFeatureFlags))"

text \<open>
  The loop of \<^verbatim>\<open>notifyFeatureFlagChanged\<close> over the entries of the map, giving the
  entries with their new snapshots and the callbacks it called. The endpoint and the
  prefix are the first and second piece of the entry's key split at \<^verbatim>\<open>#\<close>; a key
  without \<^verbatim>\<open>#\<close> has no second piece, and \<^verbatim>\<open>key.startsWith(undefined)\<close> then compares
  with the text \<^verbatim>\<open>undefined\<close>.
\<close>

fun notifyLoop ::
  "(string \<times> FlagRecord) list \<Rightarrow> (string \<times> Subscription) list
     \<Rightarrow> (string \<times> Subscription) list \<times> nat list" where
  "notifyLoop flagsByEndpoint [] = ([], [])"
| "notifyLoop flagsByEndpoint ((key, sub) # rest) =
     (let pieces = splitChar CHR ''#'' [] key;
          endpoint = hd pieces;
          prefixFilter = (case tl pieces of [] \<Rightarrow> ''undefined'' | p # ps \<Rightarrow> p);
          currentSnapshot = computeFeatureFlagSnapshot flagsByEndpoint endpoint prefixFilter;
          (rest', called) = notifyLoop flagsByEndpoint rest
      in if currentSnapshot \<noteq> lastSnapshot sub
         then ((key, sub\<lparr>lastSnapshot := currentSnapshot\<rparr>) # rest', callbacks sub @ called)
         else ((key, sub) # rest', called))"

definition notifyFeatureFlagChanged :: "FeatureFlagProvider \<Rightarrow> FeatureFlagProvider" where
  "notifyFeatureFlagChanged st =
     (let (subs, called) = notifyLoop (featureFlags st) (subscriptions st)
      in st\<lparr>subscriptions := subs, notified := notified st @ called\<rparr>)"

text \<open>
  \<^verbatim>\<open>refreshFeatureFlags\<close> up to its \<^verbatim>\<open>await\<close>: it reads the endpoint of the API
  client and asks the server.
\<close>

definition refreshFeatureFlagsStart :: "string \<Rightarrow> FeatureFlagProvider \<Rightarrow> FeatureFlagProvider" where
  "refreshFeatureFlagsStart apiEndpoint st =
     st\<lparr>refreshesInFlight := refreshesInFlight st @ [apiEndpoint]\<rparr>"

text \<open>
  \<^verbatim>\<open>refreshFeatureFlags\<close> from its \<^verbatim>\<open>await\<close> on, with the endpoint it read, the
  answer of the server (\<open>Inl\<close>: the request rejected, and so does the refresh)
  and the time \<^verbatim>\<open>Date.now()\<close>.
\<close>

definition refreshFeatureFlagsResume ::
  "string \<Rightarrow> error + RemoteFlags \<Rightarrow> int \<Rightarrow> FeatureFlagProvider \<Rightarrow> FeatureFlagProvider" where
  "refreshFeatureFlagsResume endpoint response now st0 =
     (let st = st0\<lparr>refreshesInFlight := remove1 endpoint (refreshesInFlight st0)\<rparr> in
      case response of
        Inl e \<Rightarrow> st
      | Inr data \<Rightarrow>
          (let st1 = st\<lparr>featureFlags :=
                         AList.update endpoint
                           (case data of FlagsError m \<Rightarrow> [] | FlagsData d \<Rightarrow> d)
                           (featureFlags st),
                       lastUpdated := now\<rparr>;
               st2 = notifyFeatureFlagChanged st1;
               st3 = clearRefreshTimeout st2
           in if length (subscriptions st3) > 0 then armRefreshTimeout RefreshOnly st3
              else st3))"

definition getFromCache ::
  "string \<Rightarrow> int \<Rightarrow> string \<Rightarrow> string \<Rightarrow> FeatureFlagProvider
     \<Rightarrow> bool option \<times> FeatureFlagProvider" where
  "getFromCache apiEndpoint now flagName endpoint st =
     (let st1 = (if now - lastUpdated st > ONE_HOUR then refreshFeatureFlagsStart apiEndpoint st
                 else st)
      in (case map_of (featureFlags st1) endpoint of
            None \<Rightarrow> None
          | Some flags \<Rightarrow> map_of flags flagName,
          st1))"

text \<open>
  \<^verbatim>\<open>evaluateFeatureFlag\<close> from its \<^verbatim>\<open>await\<close> on: \<open>response\<close> is the settled request
  (\<open>Inl\<close>: it rejected, and so does the method). The result is what
  \<^verbatim>\<open>this.featureFlags[endpoint][flagName]\<close> holds after the notification.
\<close>

definition evaluateFeatureFlagResume ::
  "string \<Rightarrow> string \<Rightarrow> error + RemoteFlag \<Rightarrow> FeatureFlagProvider
     \<Rightarrow> (error + bool option) \<times> FeatureFlagProvider" where
  "evaluateFeatureFlagResume endpoint flagName response st =
     (case response of
        Inl e \<Rightarrow> (Inl e, st)
      | Inr v \<Rightarrow>
          (let flags = (case map_of (featureFlags st) endpoint of None \<Rightarrow> [] | Some f \<Rightarrow> f);
               stored = (case v of FlagNull \<Rightarrow> False | FlagError m \<Rightarrow> False | FlagValue b \<Rightarrow> b);
               st1 = st\<lparr>featureFlags :=
                         AList.update endpoint (AList.update flagName stored flags)
                           (featureFlags st)\<rparr>;
               st2 = notifyFeatureFlagChanged st1
           in (Inr (case map_of (featureFlags st2) endpoint of
                      None \<Rightarrow> None
                    | Some f \<Rightarrow> map_of f flagName),
               st2)))"

text \<open>
  \<^verbatim>\<open>evaluateFeatureFlag\<close> when nothing else runs while it waits for the server.
  \<open>benchmarkDisabled\<close> is \<^verbatim>\<open>process.env.BENCHMARK_DISABLE_FEATURE_FLAGS\<close> as a truth
  value, \<open>apiEndpoint\<close> is \<^verbatim>\<open>this.apiClient.endpoint\<close>.
\<close>

definition evaluateFeatureFlag ::
  "bool \<Rightarrow> string \<Rightarrow> int \<Rightarrow> string \<Rightarrow> error + RemoteFlag \<Rightarrow> FeatureFlagProvider
     \<Rightarrow> (error + bool option) \<times> FeatureFlagProvider" where
  "evaluateFeatureFlag benchmarkDisabled apiEndpoint now flagName response st =
     (let endpoint = apiEndpoint in
      if benchmarkDisabled then (Inr (Some False), st)
      else
        (let (cachedValue, st1) = getFromCache apiEndpoint now flagName endpoint st
         in case cachedValue of
              Some v \<Rightarrow> (Inr (Some v), st1)
            | None \<Rightarrow> evaluateFeatureFlagResume endpoint flagName response st1))"

text \<open>\<^verbatim>\<open>syncAuthStatus\<close> up to the \<^verbatim>\<open>await\<close> of its refresh.\<close>

definition syncAuthStatusStart :: "string \<Rightarrow> FeatureFlagProvider \<Rightarrow> FeatureFlagProvider" where
  "syncAuthStatusStart apiEndpoint st = refreshFeatureFlagsStart apiEndpoint (st\<lparr>featureFlags := []\<rparr>)"

text \<open>\<^verbatim>\<open>set.add(x)\<close> and \<^verbatim>\<open>set.delete(x)\<close> on a \<^verbatim>\<open>Set\<close>.\<close>

definition setAdd :: "nat \<Rightarrow> nat list \<Rightarrow> nat list" where
  "setAdd x xs = (if x \<in> set xs then xs else xs @ [x])"

definition setDelete :: "nat \<Rightarrow> nat list \<Rightarrow> nat list" where
  "setDelete x xs = removeAll x xs"

definition onFeatureFlagChanged ::
  "string \<Rightarrow> string \<Rightarrow> nat \<Rightarrow> FeatureFlagProvider \<Rightarrow> Unsubscribe \<times> FeatureFlagProvider" where
  "onFeatureFlagChanged endpoint prefixFilter callback st =
     (let key = endpoint @ ''#'' @ prefixFilter in
      case map_of (subscriptions st) key of
        Some subscription \<Rightarrow>
          (DeleteFromSubscription (subId subscription) callback,
           st\<lparr>subscriptions :=
                AList.update key (subscription\<lparr>callbacks := setAdd callback (callbacks subscription)\<rparr>)
                  (subscriptions st)\<rparr>)
      | None \<Rightarrow>
          (let st1 = st\<lparr>subscriptions :=
                          AList.update prefixFilter
                            \<lparr>subId = nextSubId st,
                             lastSnapshot =
                               computeFeatureFlagSnapshot (featureFlags st) endpoint prefixFilter,
                             callbacks = [callback]\<rparr>
                            (subscriptions st),
                        nextSubId := Suc (nextSubId st)\<rparr>;
               st2 = (if nextRefreshTimeout st1 = None then armRefreshTimeout ClearAndRefresh st1
                      else st1)
           in (DeleteByKey key callback, st2)))"

text \<open>Calling the function that \<^verbatim>\<open>onFeatureFlagChanged\<close> returned.\<close>

definition unsubscribe :: "Unsubscribe \<Rightarrow> FeatureFlagProvider \<Rightarrow> FeatureFlagProvider" where
  "unsubscribe u st =
     (case u of
        DeleteFromSubscription sid callback \<Rightarrow>
          st\<lparr>subscriptions :=
               map (\<lambda>(k, sub). if subId sub = sid
                                then (k, sub\<lparr>callbacks := setDelete callback (callbacks sub)\<rparr>)
                                else (k, sub))
                 (subscriptions st)\<rparr>
      | DeleteByKey key callback \<Rightarrow>
          (case map_of (subscriptions st) key of
             None \<Rightarrow> st
           | Some sub \<Rightarrow>
               (let remaining = setDelete callback (callbacks sub);
                    st1 = st\<lparr>subscriptions :=
                               (if length remaining = 0 then AList.delete key (subscriptions st)
                                else AList.update key (sub\<lparr>callbacks := remaining\<rparr>)
                                       (subscriptions st))\<rparr>
                in if length (subscriptions st1) = 0 then clearRefreshTimeout st1 else st1)))"

text \<open>
  A pending timer fires: its closure runs up to the \<^verbatim>\<open>await\<close> of the refresh it
  starts.
\<close>

definition fireTimer :: "string \<Rightarrow> nat \<Rightarrow> FeatureFlagProvider \<Rightarrow> FeatureFlagProvider" where
  "fireTimer apiEndpoint timer st =
     (case map_of (pendingTimers st) timer of
        None \<Rightarrow> st
      | Some action \<Rightarrow>
          (let st1 = st\<lparr>pendingTimers := filter (\<lambda>(i, a). i \<noteq> timer) (pendingTimers st)\<rparr>;
               st2 = (case action of
                        ClearAndRefresh \<Rightarrow> st1\<lparr>nextRefreshTimeout := None\<rparr>
                      | RefreshOnly \<Rightarrow> st1)
           in refreshFeatureFlagsStart apiEndpoint st2))"

text \<open>The cached value of a flag for an endpoint.\<close>

definition cachedFlag :: "FeatureFlagProvider \<Rightarrow> string \<Rightarrow> string \<Rightarrow> bool option" where
  "cachedFlag st endpoint flagName =
     (case map_of (featureFlags st) endpoint of None \<Rightarrow> None | Some flags \<Rightarrow> map_of flags flagName)"

text \<open>Sample runs of the provider for the endpoint \<^verbatim>\<open>https://sourcegraph.com\<close>.\<close>

definition sampleEndpoint :: string where
  "sampleEndpoint = ''https://sourcegraph.com''"

definition sampleFlags :: FlagRecord where
  "sampleFlags = [(''cody-autocomplete-tracing'', True)]"

text \<open>A new provider after \<^verbatim>\<open>onFeatureFlagChanged(endpoint, 'cody-', callback 7)\<close>.\<close>

definition subscribedOnce :: "Unsubscribe \<times> FeatureFlagProvider" where
  "subscribedOnce = onFeatureFlagChanged sampleEndpoint ''cody-'' 7 newFeatureFlagProvider"

text \<open>The same subscription made when the cache already holds the flags of the endpoint.\<close>

definition subscribedWithFlags :: "Unsubscribe \<times> FeatureFlagProvider" where
  "subscribedWithFlags =
     onFeatureFlagChanged sampleEndpoint ''cody-'' 7
       (newFeatureFlagProvider\<lparr>featureFlags := [(sampleEndpoint, sampleFlags)]\<rparr>)"

text \<open>The first refresh after each of the two subscriptions, the server answering with the flags.\<close>

definition refreshedOnce :: FeatureFlagProvider where
  "refreshedOnce =
     refreshFeatureFlagsResume sampleEndpoint (Inr (FlagsData sampleFlags)) 1000
       (snd subscribedOnce)"

definition refreshedWithFlags :: FeatureFlagProvider where
  "refreshedWithFlags =
     refreshFeatureFlagsResume sampleEndpoint (Inr (FlagsData sampleFlags)) 1000
       (snd subscribedWithFlags)"

section \<open>Paths and URIs of the ignore helper\<close>

text \<open>The host is not Windows: \<^verbatim>\<open>isWindows()\<close> is false throughout.\<close>

fun joinSlash :: "string list \<Rightarrow> string" where
  "joinSlash [] = []"
| "joinSlash [s] = s"
| "joinSlash (s # t # ts) = s @ ''/'' @ joinSlash (t # ts)"

text \<open>
  Modelled from the spec: the POSIX path functions behind \<^verbatim>\<open>Utils.joinPath\<close> of
  \<^verbatim>\<open>vscode-uri\<close> and \<^verbatim>\<open>posixAndURIPaths.relative\<close> of \<^verbatim>\<open>common/path\<close>, which are not
  among the sources. A path is normalised segment by segment on a stack: empty
  segments and \<^verbatim>\<open>.\<close> are dropped, \<^verbatim>\<open>..\<close> takes the last segment off (at the root of
  an absolute path it is dropped, in front of a relative path it is kept).
\<close>

definition normalizeStep :: "bool \<Rightarrow> string list \<Rightarrow> string \<Rightarrow> string list" where
  "normalizeStep isAbsolute stack seg =
     (if seg = [] \<or> seg = ''.'' then stack
      else if seg = ''..''
      then (if stack \<noteq> [] \<and> last stack \<noteq> ''..'' then butlast stack
            else if isAbsolute then stack
            else stack @ [''..''])
      else stack @ [seg])"

definition normalizedSegments :: "string \<Rightarrow> string list" where
  "normalizedSegments p = foldl (normalizeStep (prefix ''/'' p)) [] (splitChar CHR ''/'' [] p)"

definition posixNormalize :: "string \<Rightarrow> string" where
  "posixNormalize p =
     (if p = [] then ''.''
      else
        (let isAbsolute = prefix ''/'' p;
             trailingSeparator = suffix ''/'' p;
             body = joinSlash (normalizedSegments p)
         in if body = [] then (if isAbsolute then ''/'' else if trailingSeparator then ''./'' else ''.'')
            else (if isAbsolute then ''/'' else []) @ body
                 @ (if trailingSeparator then ''/'' else [])))"

definition posixJoin :: "string list \<Rightarrow> string" where
  "posixJoin parts = posixNormalize (joinSlash (filter (\<lambda>part. part \<noteq> []) parts))"

text \<open>\<^verbatim>\<open>Utils.joinPath(uri, ...paths)\<close>: the URI with the joined path.\<close>

definition joinPath :: "URI \<Rightarrow> string list \<Rightarrow> URI" where
  "joinPath u paths = u\<lparr>path := posixJoin (path u # paths)\<rparr>"

fun dropCommon :: "string list \<Rightarrow> string list \<Rightarrow> string list \<times> string list" where
  "dropCommon (a # as) (b # bs) = (if a = b then dropCommon as bs else (a # as, b # bs))"
| "dropCommon as bs = (as, bs)"

text \<open>
  \<^verbatim>\<open>relative(from, to)\<close> for two absolute paths: one \<^verbatim>\<open>..\<close> for every segment of
  \<open>fromPath\<close> behind the common start, then the segments of \<open>toPath\<close> behind it; the empty
  string when both name the same directory.
\<close>

definition posixRelative :: "string \<Rightarrow> string \<Rightarrow> string" where
  "posixRelative fromPath toPath =
     (let (fromRest, toRest) = dropCommon (normalizedSegments fromPath) (normalizedSegments toPath)
      in joinSlash (replicate (length fromRest) ''..'' @ toRest))"

text \<open>
  Modelled from the spec: \<^verbatim>\<open>uriHasPrefix\<close> of \<^verbatim>\<open>editor/displayPath\<close>, which is not among
  the sources: \<open>base\<close> is a path prefix of \<open>u\<close> (same scheme and authority, and the
  path of \<open>u\<close> is the path of \<open>base\<close> or lies below it).
\<close>

definition uriHasPrefix :: "URI \<Rightarrow> URI \<Rightarrow> bool" where
  "uriHasPrefix u base =
     (scheme u = scheme base \<and> authority u = authority base \<and>
      (path u = path base
       \<or> prefix (if suffix ''/'' (path base) then path base else path base @ ''/'') (path u)
       \<or> (suffix ''/'' (path base) \<and> path u = butlast (path base))))"

text \<open>
  \<^verbatim>\<open>URI.parse\<close> of a string that \<^verbatim>\<open>toString\<close> made (no query, no fragment, nothing
  percent-encoded): the scheme up to the first colon, then \<^verbatim>\<open>//\<close> and the authority
  up to the next slash when they are there, then the path.
\<close>

definition parseUri :: "string \<Rightarrow> URI" where
  "parseUri s =
     (let sch = takeWhile (\<lambda>c. c \<noteq> CHR '':'') s;
          rest = drop (Suc (length sch)) s
      in if prefix ''//'' rest
         then (let auth = takeWhile (\<lambda>c. c \<noteq> CHR ''/'') (drop 2 rest)
               in \<lparr>scheme = sch, authority = auth, path = drop (2 + length auth) rest\<rparr>)
         else \<lparr>scheme = sch, authority = [], path = rest\<rparr>)"

section \<open>The rule set of the \<^verbatim>\<open>ignore\<close> package\<close>

text \<open>
  Modelled from the spec: the \<^verbatim>\<open>ignore\<close> package (gitignore rules), which is not among
  the sources. A rule set is the list of its patterns in the order they were added.
  Patterns are matched segment by segment: \<^verbatim>\<open>*\<close> and \<^verbatim>\<open>?\<close> stay inside a segment,
  a segment \<^verbatim>\<open>**\<close> stands for any number of directories; a pattern ending in a slash
  matches directories only; a pattern with a slash before its end is tied to the root
  of the rule set, any other matches the last segment at every depth. A later rule
  overrides an earlier one, a rule starting with \<^verbatim>\<open>!\<close> un-ignores, and a path below an
  ignored directory is ignored. Character classes and escapes are not modelled.
\<close>

type_synonym Ignore = "string list"

fun globMatch :: "string \<Rightarrow> string \<Rightarrow> bool" where
  "globMatch [] s = (s = [])"
| "globMatch (p # ps) [] = (p = CHR ''*'' \<and> globMatch ps [])"
| "globMatch (p # ps) (c # cs) =
     (if p = CHR ''*'' then globMatch ps (c # cs) \<or> globMatch (p # ps) cs
      else if p = CHR ''?'' then globMatch ps cs
      else p = c \<and> globMatch ps cs)"

fun globSegments :: "string list \<Rightarrow> string list \<Rightarrow> bool" where
  "globSegments [] ss = (ss = [])"
| "globSegments (p # ps) [] = (p = ''**'' \<and> ps \<noteq> [] \<and> globSegments ps [])"
| "globSegments (p # ps) (s # ss) =
     (if p = ''**'' then (if ps = [] then True else globSegments ps (s # ss) \<or> globSegments (p # ps) ss)
      else globMatch p s \<and> globSegments ps ss)"

record IgnoreRule =
  negative :: bool
  dirOnly :: bool
  anchored :: bool
  patternSegments :: "string list"

definition parseRule :: "string \<Rightarrow> IgnoreRule" where
  "parseRule pattern =
     (let neg = prefix ''!'' pattern;
          body = (if neg then drop 1 pattern else pattern);
          dir = suffix ''/'' body;
          body1 = (if dir then butlast body else body);
          anch = (CHR ''/'' \<in> set body1);
          body2 = (if prefix ''/'' body1 then drop 1 body1 else body1)
      in \<lparr>negative = neg, dirOnly = dir, anchored = anch,
          patternSegments = splitChar CHR ''/'' [] body2\<rparr>)"

text \<open>Does the rule match the path with these segments (a directory or not)?\<close>

definition ruleMatches :: "IgnoreRule \<Rightarrow> string list \<Rightarrow> bool \<Rightarrow> bool" where
  "ruleMatches rule segments isDir =
     ((isDir \<or> \<not> dirOnly rule) \<and>
      (if anchored rule then globSegments (patternSegments rule) segments
       else segments \<noteq> [] \<and> globSegments (patternSegments rule) [last segments]))"

text \<open>One path against all rules in order: the last rule that matches decides.\<close>

definition testOne :: "Ignore \<Rightarrow> string list \<Rightarrow> bool \<Rightarrow> bool" where
  "testOne rules segments isDir =
     foldl (\<lambda>ignored pattern.
              if ruleMatches (parseRule pattern) segments isDir
              then \<not> negative (parseRule pattern) else ignored)
       False rules"

text \<open>
  The parent directories first, from the top: \<open>parents\<close> are the segments already
  passed, the list behind it those still to come.
\<close>

fun testPath :: "Ignore \<Rightarrow> string list \<Rightarrow> string list \<Rightarrow> bool \<Rightarrow> bool" where
  "testPath rules parents [] isDir = False"
| "testPath rules parents [s] isDir = testOne rules (parents @ [s]) isDir"
| "testPath rules parents (s # t # ts) isDir =
     (if testOne rules (parents @ [s]) True then True
      else testPath rules (parents @ [s]) (t # ts) isDir)"

text \<open>
  \<^verbatim>\<open>ignore().add(pattern)\<close>: blank patterns and comments are not rules.
\<close>

definition ignoreAdd :: "string \<Rightarrow> Ignore \<Rightarrow> Ignore" where
  "ignoreAdd pattern rules =
     (if pattern = [] \<or> list_all isSpaceChar pattern \<or> prefix ''#'' pattern then rules
      else rules @ [pattern])"

text \<open>
  \<^verbatim>\<open>rules.ignores(path)\<close>: the package throws for an empty path and for one that is
  not relative to the root of the rule set (it starts with a slash or with dots and a
  slash, or is made of dots only).
\<close>

definition ignores :: "Ignore \<Rightarrow> string \<Rightarrow> error + bool" where
  "ignores rules p =
     (let afterDots = dropWhile (\<lambda>c. c = CHR ''.'') p
      in if p = [] then Inl (Error ''path must not be empty'')
         else if afterDots = [] \<or> prefix ''/'' afterDots
         then Inl (Error ''path should be a `path.relative()`d string'')
         else Inr (testPath rules []
                     (filter (\<lambda>s. s \<noteq> []) (splitChar CHR ''/'' [] p)) (suffix ''/'' p)))"

section \<open>The ignore helper\<close>

definition CODY_IGNORE_URI_PATH :: string where
  "CODY_IGNORE_URI_PATH = ''.cody/ignore''"

record IgnoreFileContent =
  ignoreFileUri :: URI
  ignoreFileContent :: string

text \<open>
  The helper object: the map from the text of a workspace root to its rule set, in
  insertion order, and the switch of the feature.
\<close>

record IgnoreHelper =
  workspaceIgnores :: "(string \<times> Ignore) list"
  isActive :: bool

definition newIgnoreHelper :: IgnoreHelper where
  "newIgnoreHelper = \<lparr>workspaceIgnores = [], isActive = False\<rparr>"

definition setActiveState :: "bool \<Rightarrow> IgnoreHelper \<Rightarrow> IgnoreHelper" where
  "setActiveState active helper = helper\<lparr>isActive := active\<rparr>"

definition relativePath :: "URI \<Rightarrow> URI \<Rightarrow> string" where
  "relativePath fromUri toUri = posixRelative (path fromUri) (path toUri)"

definition ignoreFileEffectiveDirectory :: "URI \<Rightarrow> URI" where
  "ignoreFileEffectiveDirectory ignoreFile = joinPath ignoreFile [''..'', ''..'']"

definition getDefaultIgnores :: Ignore where
  "getDefaultIgnores = ignoreAdd ''.env'' []"

definition ensureFileUri :: "string \<Rightarrow> URI \<Rightarrow> error + unit" where
  "ensureFileUri name u =
     (if scheme u \<noteq> ''file''
      then Inl (Error (name @ '' should be a file URI: '' @ [CHR 0x22] @ uriToString u @ [CHR 0x22]))
      else Inr ())"

definition ensureAbsolute :: "string \<Rightarrow> URI \<Rightarrow> error + unit" where
  "ensureAbsolute name u =
     (if \<not> prefix ''/'' (path u)
      then Inl (Error (name @ '' should be absolute: '' @ [CHR 0x22] @ uriToString u @ [CHR 0x22]))
      else Inr ())"

definition ensureValidCodyIgnoreFile :: "string \<Rightarrow> URI \<Rightarrow> error + unit" where
  "ensureValidCodyIgnoreFile name u =
     (case ensureAbsolute ''ignoreFile.uri'' u of
        Inl e \<Rightarrow> Inl e
      | Inr ok \<Rightarrow>
          if \<not> suffix CODY_IGNORE_URI_PATH (path u)
          then Inl (Error (name @ '' should end with '' @ [CHR 0x22] @ CODY_IGNORE_URI_PATH
                           @ [CHR 0x22] @ '': '' @ [CHR 0x22] @ uriToString u @ [CHR 0x22]))
          else Inr ())"

text \<open>
  The inner loop of \<^verbatim>\<open>setIgnoreFiles\<close> over the lines of one ignore file, adding to
  \<open>rules\<close>.
\<close>

fun addIgnoreLines :: "string \<Rightarrow> string list \<Rightarrow> Ignore \<Rightarrow> Ignore" where
  "addIgnoreLines relativeFolderUriPath [] rules = rules"
| "addIgnoreLines relativeFolderUriPath (line # lines) rules =
     (let ignoreLine = trim line in
      if length ignoreLine = 0 \<or> prefix ''#'' ignoreLine
      then addIgnoreLines relativeFolderUriPath lines rules
      else
        (let isInverted = prefix ''!'' ignoreLine;
             ignoreLine1 = (if isInverted then drop 1 ignoreLine else ignoreLine);
             ignoreRule = (if length relativeFolderUriPath > 0
                           then relativeFolderUriPath @ ''/'' @ ignoreLine1
                           else ignoreLine1)
         in addIgnoreLines relativeFolderUriPath lines
              (ignoreAdd ((if isInverted then ''!'' else []) @ ignoreRule) rules)))"

text \<open>The outer loop of \<^verbatim>\<open>setIgnoreFiles\<close> over the ignore files; a bad URI throws.\<close>

fun addIgnoreFiles :: "URI \<Rightarrow> IgnoreFileContent list \<Rightarrow> Ignore \<Rightarrow> error + Ignore" where
  "addIgnoreFiles workspaceRoot [] rules = Inr rules"
| "addIgnoreFiles workspaceRoot (ignoreFile # ignoreFiles) rules =
     (case ensureValidCodyIgnoreFile ''ignoreFile.uri'' (ignoreFileUri ignoreFile) of
        Inl e \<Rightarrow> Inl e
      | Inr ok \<Rightarrow>
          (let effectiveDir = ignoreFileEffectiveDirectory (ignoreFileUri ignoreFile);
               relativeFolderUriPath = relativePath workspaceRoot effectiveDir
           in addIgnoreFiles workspaceRoot ignoreFiles
                (addIgnoreLines relativeFolderUriPath
                   (splitChar CHR 0x0A [] (ignoreFileContent ignoreFile)) rules)))"

definition setIgnoreFiles ::
  "URI \<Rightarrow> IgnoreFileContent list \<Rightarrow> IgnoreHelper \<Rightarrow> error + IgnoreHelper" where
  "setIgnoreFiles workspaceRoot ignoreFiles helper =
     (case ensureAbsolute ''workspaceRoot'' workspaceRoot of
        Inl e \<Rightarrow> Inl e
      | Inr ok \<Rightarrow>
          (case addIgnoreFiles workspaceRoot ignoreFiles getDefaultIgnores of
             Inl e \<Rightarrow> Inl e
           | Inr rules \<Rightarrow>
               Inr (helper\<lparr>workspaceIgnores :=
                             AList.update (uriToString workspaceRoot) rules
                               (workspaceIgnores helper)\<rparr>)))"

definition clearIgnoreFiles :: "URI \<Rightarrow> IgnoreHelper \<Rightarrow> IgnoreHelper" where
  "clearIgnoreFiles workspaceRoot helper =
     helper\<lparr>workspaceIgnores := AList.delete (uriToString workspaceRoot) (workspaceIgnores helper)\<rparr>"

text \<open>
  The registered roots that are a prefix of the file, the shortest text first (the
  sort is stable); the first of them, parsed.
\<close>

definition findWorkspaceRoot :: "IgnoreHelper \<Rightarrow> URI \<Rightarrow> URI option" where
  "findWorkspaceRoot helper file =
     (let candidates = filter (\<lambda>workspaceRoot. uriHasPrefix file (parseUri workspaceRoot))
                         (map fst (workspaceIgnores helper))
      in case sort_key length candidates of
           [] \<Rightarrow> None
         | selected # others \<Rightarrow> if selected = [] then None else Some (parseUri selected))"

definition isIgnored :: "IgnoreHelper \<Rightarrow> URI \<Rightarrow> error + bool" where
  "isIgnored helper u =
     (if \<not> isActive helper then Inr False
      else if scheme u \<noteq> ''file'' then Inr False
      else
        (case ensureFileUri ''uri'' u of
           Inl e \<Rightarrow> Inl e
         | Inr ok \<Rightarrow>
             (case ensureAbsolute ''uri'' u of
                Inl e \<Rightarrow> Inl e
              | Inr ok' \<Rightarrow>
                  (case findWorkspaceRoot helper u of
                     None \<Rightarrow> ignores getDefaultIgnores (uriBasename u)
                   | Some workspaceRoot \<Rightarrow>
                       (let relPath = relativePath workspaceRoot u;
                            rules = (case map_of (workspaceIgnores helper)
                                            (uriToString workspaceRoot) of
                                       None \<Rightarrow> getDefaultIgnores
                                     | Some r \<Rightarrow> r)
                        in ignores rules relPath)))))"

text \<open>The scenario: the root \<^verbatim>\<open>file:///w\<close> with one ignore file holding \<^verbatim>\<open>build/\<close>.\<close>

definition fileUri :: "string \<Rightarrow> URI" where
  "fileUri p = \<lparr>scheme = ''file'', authority = [], path = p\<rparr>"

definition scenarioHelper :: "error + IgnoreHelper" where
  "scenarioHelper =
     setIgnoreFiles (fileUri ''/w'')
       [\<lparr>ignoreFileUri = fileUri ''/w/.cody/ignore'', ignoreFileContent = ''build/''\<rparr>]
       (setActiveState True newIgnoreHelper)"

text \<open>
  A normalised absolute directory path: a slash in front of each of its segments,
  none of which is empty, \<^verbatim>\<open>.\<close> or \<^verbatim>\<open>..\<close> or holds a slash.
\<close>

definition isPlainSegment :: "string \<Rightarrow> bool" where
  "isPlainSegment s = (s \<noteq> [] \<and> s \<noteq> ''.'' \<and> s \<noteq> ''..'' \<and> CHR ''/'' \<notin> set s)"

definition directoryPath :: "string list \<Rightarrow> string" where
  "directoryPath segments = concat (map (\<lambda>s. CHR ''/'' # s) segments)"

text \<open>The same root with the ignore file one directory down, in \<^verbatim>\<open>/w/sub/.cody/ignore\<close>.\<close>

definition nestedHelper :: "error + IgnoreHelper" where
  "nestedHelper =
     setIgnoreFiles (fileUri ''/w'')
       [\<lparr>ignoreFileUri = fileUri ''/w/sub/.cody/ignore'', ignoreFileContent = ''build/''\<rparr>]
       (setActiveState True newIgnoreHelper)"

section \<open>Properties of the fusion engine\<close>

lemma totalChars_simps [simp]:
  "totalChars [] = 0"
  "totalChars (x # xs) = length (itemText x) + totalChars xs"
  "totalChars (xs @ ys) = totalChars xs + totalChars ys"
  by (simp_all add: totalChars_def)

lemma fuseLoop_firstFit:
  "fuseLoop limit items (c, acc) =
     (c + totalChars (firstFit limit c items), acc @ firstFit limit c items)"
  by (induction items arbitrary: c acc) (simp_all add: Let_def)

lemma firstFit_bound:
  "real c \<le> cap \<Longrightarrow> real (c + totalChars (firstFit cap c items)) \<le> cap"
proof (induction items arbitrary: c)
  case Nil
  then show ?case by simp
next
  case (Cons x xs)
  show ?case
  proof (cases "real (c + length (itemText x)) \<le> cap")
    case True
    from Cons.IH [OF True] True show ?thesis by (simp add: add.assoc)
  next
    case False
    with Cons.IH [OF Cons.prems] show ?thesis by simp
  qed
qed

lemma firstFit_subseq: "subseq (firstFit cap c items) items"
  by (induction items arbitrary: c) auto

lemma firstFit_empty_items:
  "real c \<le> cap \<Longrightarrow>
     filter isEmptyItem (firstFit cap c items) = filter isEmptyItem items"
proof (induction items arbitrary: c)
  case Nil
  then show ?case by simp
next
  case (Cons x xs)
  show ?case
  proof (cases "real (c + length (itemText x)) \<le> cap")
    case True
    from Cons.IH [OF True] True show ?thesis by simp
  next
    case False
    with Cons.prems have "itemText x \<noteq> []" by auto
    with False Cons.IH [OF Cons.prems] show ?thesis by (simp add: isEmptyItem_def)
  qed
qed

lemma firstFit_zero: "firstFit 0 0 items = filter isEmptyItem items"
  by (induction items) (simp_all add: isEmptyItem_def)

lemma fuseContext_firstFit:
  "fuseContext K E maxChars =
     firstFit (maxKeywordChars E maxChars) 0 K
     @ firstFit maxChars (totalChars (firstFit (maxKeywordChars E maxChars) 0 K)) E"
  by (simp add: fuseContext_def afterKeywordLoop_def fuseLoop_firstFit)

lemma keywordPortion_firstFit:
  "keywordPortion K E maxChars = firstFit (maxKeywordChars E maxChars) 0 K"
  by (simp add: keywordPortion_def afterKeywordLoop_def fuseLoop_firstFit)

lemma maxKeywordChars_le: "0 \<le> maxChars \<Longrightarrow> maxKeywordChars E maxChars \<le> maxChars"
  by (simp add: maxKeywordChars_def)

lemma maxKeywordChars_nonneg: "0 \<le> maxChars \<Longrightarrow> 0 \<le> maxKeywordChars E maxChars"
  by (simp add: maxKeywordChars_def)

lemma keywordPortion_bound:
  assumes "0 \<le> maxChars"
  shows "real (totalChars (keywordPortion K E maxChars)) \<le> maxKeywordChars E maxChars"
  using firstFit_bound [of 0 "maxKeywordChars E maxChars" K] maxKeywordChars_nonneg [OF assms]
  by (simp add: keywordPortion_firstFit)

lemma fuseContext_bound:
  assumes "0 \<le> maxChars"
  shows "real (totalChars (fuseContext K E maxChars)) \<le> maxChars"
proof -
  let ?ks = "firstFit (maxKeywordChars E maxChars) 0 K"
  have "real (totalChars ?ks) \<le> maxKeywordChars E maxChars"
    using keywordPortion_bound [OF assms] by (simp add: keywordPortion_firstFit)
  with maxKeywordChars_le [OF assms, of E] have "real (totalChars ?ks) \<le> maxChars"
    by linarith
  from firstFit_bound [OF this] show ?thesis
    by (simp add: fuseContext_firstFit)
qed

text \<open>
  A budget is a character count. For a negative number in its place no item fits, not
  even an empty one, and the result is the empty list.
\<close>

lemma firstFit_negative_cap: "cap < 0 \<Longrightarrow> firstFit cap c items = []"
  by (induction items arbitrary: c) simp_all

lemma fuseContext_negative_budget: "maxChars < 0 \<Longrightarrow> fuseContext K E maxChars = []"
proof -
  assume neg: "maxChars < 0"
  then have "maxKeywordChars E maxChars < 0"
    by (simp add: maxKeywordChars_def)
  with neg show ?thesis
    by (simp add: fuseContext_firstFit firstFit_negative_cap)
qed

text \<open>
  C1. For every budget \<open>maxChars\<close> (a character count, so not negative) and all lists
  \<open>K\<close> of keyword items and \<open>E\<close> of embeddings items, the total character count of
  \<open>fuseContext K E maxChars\<close> is at most \<open>maxChars\<close>. The result is the items kept
  from \<open>K\<close> (a subsequence of \<open>K\<close>) followed by items kept from \<open>E\<close> (a subsequence
  of \<open>E\<close>); if \<open>E\<close> is not empty the items kept from \<open>K\<close> total at most
  \<open>0.8 * maxChars\<close>, and if \<open>E\<close> is empty they are bounded by the full budget only.
\<close>

theorem fuseContext_budget:
  assumes "0 \<le> maxChars"
  shows "real (totalChars (fuseContext K E maxChars)) \<le> maxChars
       \<and> subseq (keywordPortion K E maxChars) K
       \<and> (\<exists>es. subseq es E \<and> fuseContext K E maxChars = keywordPortion K E maxChars @ es)
       \<and> (E \<noteq> [] \<longrightarrow> real (totalChars (keywordPortion K E maxChars)) \<le> 0.8 * maxChars)
       \<and> (E = [] \<longrightarrow> real (totalChars (keywordPortion K E maxChars)) \<le> maxChars)"
proof -
  have a: "real (totalChars (fuseContext K E maxChars)) \<le> maxChars"
    by (rule fuseContext_bound [OF assms])
  have b: "subseq (keywordPortion K E maxChars) K"
    by (simp add: keywordPortion_firstFit firstFit_subseq)
  have c: "\<exists>es. subseq es E \<and> fuseContext K E maxChars = keywordPortion K E maxChars @ es"
    using firstFit_subseq by (auto simp: fuseContext_firstFit keywordPortion_firstFit)
  have d: "E \<noteq> [] \<longrightarrow> real (totalChars (keywordPortion K E maxChars)) \<le> 0.8 * maxChars"
    using keywordPortion_bound [OF assms, of K E] by (auto simp: maxKeywordChars_def)
  have e: "E = [] \<longrightarrow> real (totalChars (keywordPortion K E maxChars)) \<le> maxChars"
    using keywordPortion_bound [OF assms, of K E] maxKeywordChars_le [OF assms, of E]
    by linarith
  from a b c d e show ?thesis by blast
qed


theorem fuseContext_budget_witness:
  "(0::real) \<le> 100
   \<and> fuseContext [itemOf Search (replicate 50 CHR ''a'')]
        [itemOf Embeddings (replicate 50 CHR ''b'')] 100
       = [itemOf Search (replicate 50 CHR ''a''), itemOf Embeddings (replicate 50 CHR ''b'')]
   \<and> real (totalChars (fuseContext [itemOf Search (replicate 50 CHR ''a'')]
        [itemOf Embeddings (replicate 50 CHR ''b'')] 100)) \<le> 100
   \<and> keywordPortion [itemOf Search (replicate 50 CHR ''a'')]
        [itemOf Embeddings (replicate 50 CHR ''b'')] 100
       = [itemOf Search (replicate 50 CHR ''a'')]
   \<and> real (totalChars (keywordPortion [itemOf Search (replicate 50 CHR ''a'')]
        [itemOf Embeddings (replicate 50 CHR ''b'')] 100)) \<le> 0.8 * 100"
  using fuseContext_budget [of 100 "[itemOf Search (replicate 50 CHR ''a'')]"
      "[itemOf Embeddings (replicate 50 CHR ''b'')]"]
  by (simp add: fuseContext_def keywordPortion_def afterKeywordLoop_def maxKeywordChars_def
      itemOf_def Let_def)

lemma fuseContext_subset: "set (fuseContext K E maxChars) \<subseteq> set K \<union> set E"
proof -
  have "set (firstFit cap c items) \<subseteq> set items" for cap c items
    by (induction items arbitrary: c) auto
  then show ?thesis
    unfolding fuseContext_firstFit by (simp add: le_supI1 le_supI2)
qed

text \<open>
  C2. \<open>fuseContext\<close> is greedy first-fit: its result is the first-fit walk over the
  keyword items against the keyword cap (from a running count of \<open>0\<close>), followed by the
  first-fit walk over the embeddings items against the full budget, starting from the
  characters the kept keyword items use. Every returned item is an input item as it
  was given (nothing is truncated). A keyword item of 90 characters with one
  embeddings item of 50 characters and a budget of 100 is dropped and the embeddings
  item is included; and after an overflowing item the walk goes on, so a smaller
  item behind it is still included.
\<close>

theorem fuseContext_greedy_first_fit:
  "fuseContext K E maxChars =
     firstFit (if E \<noteq> [] then maxChars * 0.8 else maxChars) 0 K
     @ firstFit maxChars
         (totalChars (firstFit (if E \<noteq> [] then maxChars * 0.8 else maxChars) 0 K)) E
   \<and> set (fuseContext K E maxChars) \<subseteq> set K \<union> set E
   \<and> fuseContext [itemOf Search (replicate 90 CHR ''a'')]
        [itemOf Embeddings (replicate 50 CHR ''b'')] 100
       = [itemOf Embeddings (replicate 50 CHR ''b'')]
   \<and> fuseContext [itemOf Search (replicate 90 CHR ''a''), itemOf Search (replicate 10 CHR ''c'')]
        [itemOf Embeddings (replicate 50 CHR ''b'')] 100
       = [itemOf Search (replicate 10 CHR ''c''), itemOf Embeddings (replicate 50 CHR ''b'')]"
proof -
  have general: "fuseContext K E maxChars =
     firstFit (if E \<noteq> [] then maxChars * 0.8 else maxChars) 0 K
     @ firstFit maxChars
         (totalChars (firstFit (if E \<noteq> [] then maxChars * 0.8 else maxChars) 0 K)) E"
    using fuseContext_firstFit [of K E maxChars] by (simp add: maxKeywordChars_def)
  have scenario: "fuseContext [itemOf Search (replicate 90 CHR ''a'')]
        [itemOf Embeddings (replicate 50 CHR ''b'')] 100
       = [itemOf Embeddings (replicate 50 CHR ''b'')]"
    by (simp add: fuseContext_def afterKeywordLoop_def maxKeywordChars_def itemOf_def Let_def)
  have goes_on: "fuseContext
        [itemOf Search (replicate 90 CHR ''a''), itemOf Search (replicate 10 CHR ''c'')]
        [itemOf Embeddings (replicate 50 CHR ''b'')] 100
       = [itemOf Search (replicate 10 CHR ''c''), itemOf Embeddings (replicate 50 CHR ''b'')]"
    by (simp add: fuseContext_def afterKeywordLoop_def maxKeywordChars_def itemOf_def Let_def)
  from general fuseContext_subset [of K E maxChars] scenario goes_on show ?thesis
    by blast
qed

lemma totalChars_empty_items: "totalChars (filter isEmptyItem items) = 0"
  by (induction items) (simp_all add: isEmptyItem_def)

text \<open>
  C10. For every budget \<open>maxChars \<ge> 0\<close>, the items with empty text in the result of
  \<open>fuseContext K E maxChars\<close> are all the items with empty text of \<open>K\<close> followed by
  all those of \<open>E\<close>, in input order: an empty item is included wherever it stands,
  also when earlier items have used the whole budget. With budget \<open>0\<close> the result
  is exactly the empty-text items of \<open>K\<close> followed by those of \<open>E\<close>.
\<close>

theorem fuseContext_empty_text_items:
  "(0 \<le> maxChars \<longrightarrow>
      filter isEmptyItem (fuseContext K E maxChars)
        = filter isEmptyItem K @ filter isEmptyItem E)
   \<and> fuseContext K E 0 = filter isEmptyItem K @ filter isEmptyItem E"
proof -
  have zero: "fuseContext K E 0 = filter isEmptyItem K @ filter isEmptyItem E"
    by (simp add: fuseContext_firstFit maxKeywordChars_def firstFit_zero
        totalChars_empty_items)
  have pos: "filter isEmptyItem (fuseContext K E maxChars)
        = filter isEmptyItem K @ filter isEmptyItem E" if nonneg: "0 \<le> maxChars"
  proof -
    let ?cap = "maxKeywordChars E maxChars"
    let ?ks = "firstFit ?cap 0 K"
    have k: "filter isEmptyItem ?ks = filter isEmptyItem K"
      using firstFit_empty_items [of 0 ?cap K] maxKeywordChars_nonneg [OF nonneg, of E]
      by simp
    have "real (totalChars ?ks) \<le> ?cap"
      using keywordPortion_bound [OF nonneg, of K E] by (simp add: keywordPortion_firstFit)
    with maxKeywordChars_le [OF nonneg, of E] have "real (totalChars ?ks) \<le> maxChars"
      by linarith
    from firstFit_empty_items [OF this, of E] k show ?thesis
      by (simp add: fuseContext_firstFit)
  qed
  from zero pos show ?thesis by blast
qed

theorem fuseContext_empty_text_items_witness:
  "(0::real) \<le> 5
   \<and> fuseContext [itemOf Search ''aaaa'', itemOf Search []]
        [itemOf Embeddings ''b'', itemOf Embeddings []] 5
       = [itemOf Search ''aaaa'', itemOf Search [], itemOf Embeddings ''b'', itemOf Embeddings []]
   \<and> filter isEmptyItem (fuseContext [itemOf Search ''aaaa'', itemOf Search []]
        [itemOf Embeddings ''b'', itemOf Embeddings []] 5)
       = [itemOf Search [], itemOf Embeddings []]
   \<and> fuseContext [itemOf Search ''aaaa'', itemOf Search []]
        [itemOf Embeddings ''b'', itemOf Embeddings []] 0
       = [itemOf Search [], itemOf Embeddings []]"
  using fuseContext_empty_text_items [of 5 "[itemOf Search ''aaaa'', itemOf Search []]"
      "[itemOf Embeddings ''b'', itemOf Embeddings []]"]
  by (simp add: fuseContext_def afterKeywordLoop_def maxKeywordChars_def
      itemOf_def isEmptyItem_def Let_def)

section \<open>Properties of the priority context\<close>

lemma getCurrentSelectionContext_length: "length (getCurrentSelectionContext editor) \<le> 1"
  by (simp add: getCurrentSelectionContext_def split: option.splits)

lemma getVisibleEditorContext_length: "length (getVisibleEditorContext editor) \<le> 1"
  by (simp add: getVisibleEditorContext_def split: option.splits)

lemma getReadmeContext_length: "getReadmeContext ws = Inr items \<Longrightarrow> length items \<le> 1"
  by (auto simp: getReadmeContext_def Let_def split: sum.splits list.splits if_splits prod.splits)

lemma getPriorityContext_branch:
  "getPriorityContext input editor ws retrieved =
     (case priorityBranch input editor of
        SelectionBranch \<Rightarrow> Inr (getCurrentSelectionContext editor)
      | UserAttentionBranch \<Rightarrow> Inr (getVisibleEditorContext editor)
      | ReadmeBranch \<Rightarrow> (if containsREADME retrieved then Inr [] else getReadmeContext ws)
      | NoBranch \<Rightarrow> Inr [])"
  by (simp add: getPriorityContext_def priorityBranch_def Let_def)

lemma getPriorityContext_length:
  "getPriorityContext input editor ws retrieved = Inr items \<Longrightarrow> length items \<le> 1"
  using getCurrentSelectionContext_length [of editor] getVisibleEditorContext_length [of editor]
    getReadmeContext_length [of ws items]
  by (auto simp: getPriorityContext_branch split: PriorityBranch.splits if_splits)

lemma getPriorityContext_error:
  "getPriorityContext input editor ws retrieved = Inl e \<Longrightarrow> getReadmeContext ws = Inl e"
  by (auto simp: getPriorityContext_branch split: PriorityBranch.splits if_splits)

text \<open>
  C4. For every query text, editor state and list of retrieved items: if the editor has
  an active selection whose text is not empty, the priority context is exactly one
  item, the selection (its text, file and range, tagged \<open>Selection\<close>), whatever the
  query text is. In every case the output is the output of a single branch, the one
  that \<open>priorityBranch\<close> names, and has at most one item.
\<close>

theorem getPriorityContext_precedence:
  "(getActiveTextEditorSelection editor = Some selection \<and> selectedText selection \<noteq> [] \<longrightarrow>
      getPriorityContext input editor ws retrieved =
        Inr [\<lparr>itemText = selectedText selection,
              itemUri = selectionFileUri selection,
              itemRange = map_option (\<lambda>r. mkRange (startLine r) (startCharacter r)
                                            (endLine r) (endCharacter r))
                            (selectionRange selection),
              itemSource = Selection,
              repoName = None, title = None, revision = None\<rparr>])
   \<and> getPriorityContext input editor ws retrieved =
       (case priorityBranch input editor of
          SelectionBranch \<Rightarrow> Inr (getCurrentSelectionContext editor)
        | UserAttentionBranch \<Rightarrow> Inr (getVisibleEditorContext editor)
        | ReadmeBranch \<Rightarrow> (if containsREADME retrieved then Inr [] else getReadmeContext ws)
        | NoBranch \<Rightarrow> Inr [])
   \<and> (\<forall>items. getPriorityContext input editor ws retrieved = Inr items \<longrightarrow> length items \<le> 1)"
proof -
  have sel: "getPriorityContext input editor ws retrieved =
        Inr [\<lparr>itemText = selectedText selection,
              itemUri = selectionFileUri selection,
              itemRange = map_option (\<lambda>r. mkRange (startLine r) (startCharacter r)
                                            (endLine r) (endCharacter r))
                            (selectionRange selection),
              itemSource = Selection,
              repoName = None, title = None, revision = None\<rparr>]"
    if "getActiveTextEditorSelection editor = Some selection" "selectedText selection \<noteq> []"
    using that
    by (simp add: getPriorityContext_def getCurrentSelectionContext_def Let_def
        split: option.splits)
  from sel getPriorityContext_branch [of input editor ws retrieved]
    getPriorityContext_length [of input editor ws retrieved]
  show ?thesis by blast
qed

theorem getPriorityContext_precedence_witness:
  "getActiveTextEditorSelection selectingEditor =
     Some \<lparr>selectionFileUri = sampleUri, selectedText = ''foo'',
           selectionRange = Some \<lparr>startLine = 3, startCharacter = 0,
                                   endLine = 3, endCharacter = 3\<rparr>\<rparr>
   \<and> needsUserAttentionContext ''what is this repo? see the current file''
   \<and> needsReadmeContext selectingEditor ''what is this repo? see the current file''
   \<and> priorityBranch ''what is this repo? see the current file'' selectingEditor = SelectionBranch
   \<and> getPriorityContext ''what is this repo? see the current file'' selectingEditor
        sampleWorkspace []
       = Inr [\<lparr>itemText = ''foo'', itemUri = sampleUri,
               itemRange = Some \<lparr>startLine = 3, startCharacter = 0,
                                 endLine = 3, endCharacter = 3\<rparr>,
               itemSource = Selection,
               repoName = None, title = None, revision = None\<rparr>]"
proof -
  have s: "getActiveTextEditorSelection selectingEditor =
     Some \<lparr>selectionFileUri = sampleUri, selectedText = ''foo'',
           selectionRange = Some \<lparr>startLine = 3, startCharacter = 0,
                                   endLine = 3, endCharacter = 3\<rparr>\<rparr>"
    by (simp add: selectingEditor_def)
  have a: "needsUserAttentionContext ''what is this repo? see the current file''"
    by code_simp
  have r: "needsReadmeContext selectingEditor ''what is this repo? see the current file''"
    by code_simp
  have b: "priorityBranch ''what is this repo? see the current file'' selectingEditor
            = SelectionBranch"
    by (simp add: priorityBranch_def getCurrentSelectionContext_def selectingEditor_def)
  from getPriorityContext_precedence
    [of selectingEditor
        "\<lparr>selectionFileUri = sampleUri, selectedText = ''foo'',
          selectionRange = Some \<lparr>startLine = 3, startCharacter = 0,
                                  endLine = 3, endCharacter = 3\<rparr>\<rparr>"
        "''what is this repo? see the current file''" sampleWorkspace "[]"] s a r b
  show ?thesis by (simp add: mkRange_def)
qed

lemma splitNonWord_word_chars:
  "w \<in> set (splitNonWord cur inRun s) \<Longrightarrow> c \<in> set w \<Longrightarrow> c \<in> set cur \<or> isWordChar c"
proof (induction s arbitrary: cur inRun)
  case Nil
  then show ?case by simp
next
  case (Cons d ds)
  show ?case
  proof (cases "isWordChar d")
    case True
    with Cons.prems have "w \<in> set (splitNonWord (cur @ [d]) False ds)" by simp
    from Cons.IH [OF this Cons.prems(2)] True show ?thesis by auto
  next
    case False
    show ?thesis
    proof (cases inRun)
      case True
      with False Cons.prems have "w \<in> set (splitNonWord cur True ds)" by simp
      from Cons.IH [OF this Cons.prems(2)] show ?thesis .
    next
      case notRun: False
      with False Cons.prems have "w = cur \<or> w \<in> set (splitNonWord [] True ds)" by simp
      then show ?thesis
      proof
        assume "w = cur"
        with Cons.prems(2) show ?thesis by simp
      next
        assume "w \<in> set (splitNonWord [] True ds)"
        from Cons.IH [OF this Cons.prems(2)] show ?thesis by simp
      qed
    qed
  qed
qed

text \<open>
  No word of the bag contains a question mark, so the indicator \<^verbatim>\<open>'?'\<close> of
  \<^verbatim>\<open>questionIndicators\<close> is never found, whatever the input is.
\<close>

lemma question_mark_never_in_bag:
  "\<not> bagOfWords (filter (\<lambda>w. length w > 0) (splitNonWord [] False input)) ''?''"
proof
  assume "bagOfWords (filter (\<lambda>w. length w > 0) (splitNonWord [] False input)) ''?''"
  then have "''?'' \<in> set (splitNonWord [] False input)"
    by (simp add: bagOfWords_def)
  from splitNonWord_word_chars [OF this, of "CHR ''?''"] show False
    by (simp add: isWordChar_def)
qed

text \<open>What \<open>needsReadmeContext\<close> decides, for every editor and input.\<close>

lemma needsReadmeContext_iff:
  "needsReadmeContext editor input \<longleftrightarrow>
     extractQuestion (toLowerCase input) \<noteq> None
     \<and> extractQuestion (toLowerCase input) \<noteq> Some []
     \<and> (\<exists>q \<in> set [''what'', ''how'', ''describe'', ''explain''].
           q \<in> set (splitNonWord [] False (toLowerCase input)))
     \<and> (\<exists>p \<in> set (projectSignifiers editor).
           bagOfWords (filter (\<lambda>w. length w > 0) (splitNonWord [] False (toLowerCase input))) p)"
proof -
  let ?words = "filter (\<lambda>w. length w > 0) (splitNonWord [] False (toLowerCase input))"
  have "list_ex (bagOfWords ?words) questionIndicators \<longleftrightarrow>
          (\<exists>q \<in> set [''what'', ''how'', ''describe'', ''explain''].
             q \<in> set (splitNonWord [] False (toLowerCase input)))"
    using question_mark_never_in_bag [of "toLowerCase input"]
    by (auto simp: questionIndicators_def bagOfWords_def)
  then show ?thesis
    by (auto simp: needsReadmeContext_def Let_def list_ex_iff)
qed

text \<open>
  The scenario of the specification: \<^verbatim>\<open>what is this project?\<close> in the workspace folder
  \<^verbatim>\<open>myrepo\<close>, nothing selected and no README retrieved, gives the README.
\<close>

lemma readme_scenario:
  "getPriorityContext ''what is this project?'' idleEditor sampleWorkspace []
     = Inr [\<lparr>itemText = ''# My repo'', itemUri = readmeUri0, itemRange = None,
             itemSource = Editor, repoName = None, title = None, revision = None\<rparr>]"
  by code_simp

text \<open>
  C5. The query \<^verbatim>\<open>is this a repo?\<close>, with nothing selected and no user-attention match,
  contains the question indicator \<^verbatim>\<open>?\<close> (its first clause is the whole query) and the
  project signifier \<^verbatim>\<open>repo\<close>. The words of the bag are \<^verbatim>\<open>is\<close>, \<^verbatim>\<open>this\<close>, \<^verbatim>\<open>a\<close>,
  \<^verbatim>\<open>repo\<close>: the question mark is a separator of the split and never a word, so
  \<open>needsReadmeContext\<close> is false and no README is returned, though the workspace has one.
  The same query with \<^verbatim>\<open>what\<close> in front is answered with the README.
\<close>

theorem needsReadmeContext_question_mark_lost:
  "getCurrentSelectionContext idleEditor = []
   \<and> needsUserAttentionContext ''is this a repo?'' = False
   \<and> extractQuestion (toLowerCase ''is this a repo?'') = Some ''is this a repo?''
   \<and> ''?'' \<in> set questionIndicators
   \<and> ''repo'' \<in> set (projectSignifiers idleEditor)
   \<and> filter (\<lambda>w. length w > 0) (splitNonWord [] False (toLowerCase ''is this a repo?''))
       = [''is'', ''this'', ''a'', ''repo'']
   \<and> needsReadmeContext idleEditor ''is this a repo?'' = False
   \<and> getPriorityContext ''is this a repo?'' idleEditor sampleWorkspace [] = Inr []
   \<and> needsReadmeContext idleEditor ''what is this a repo?'' = True
   \<and> getReadmeContext sampleWorkspace
       = Inr [\<lparr>itemText = ''# My repo'', itemUri = readmeUri0, itemRange = None,
               itemSource = Editor, repoName = None, title = None, revision = None\<rparr>]"
proof -
  have 1: "getCurrentSelectionContext idleEditor = []" by code_simp
  have 2: "needsUserAttentionContext ''is this a repo?'' = False" by code_simp
  have 3: "extractQuestion (toLowerCase ''is this a repo?'') = Some ''is this a repo?''"
    by code_simp
  have 4: "''?'' \<in> set questionIndicators" by (simp add: questionIndicators_def)
  have 5: "''repo'' \<in> set (projectSignifiers idleEditor)" by (simp add: projectSignifiers_def)
  have 6: "filter (\<lambda>w. length w > 0) (splitNonWord [] False (toLowerCase ''is this a repo?''))
       = [''is'', ''this'', ''a'', ''repo'']" by code_simp
  have 7: "needsReadmeContext idleEditor ''is this a repo?'' = False" by code_simp
  have 8: "getPriorityContext ''is this a repo?'' idleEditor sampleWorkspace [] = Inr []"
    by code_simp
  have 9: "needsReadmeContext idleEditor ''what is this a repo?'' = True" by code_simp
  have 10: "getReadmeContext sampleWorkspace
       = Inr [\<lparr>itemText = ''# My repo'', itemUri = readmeUri0, itemRange = None,
               itemSource = Editor, repoName = None, title = None, revision = None\<rparr>]"
    by code_simp
  from 1 2 3 4 5 6 7 8 9 10 show ?thesis by blast
qed


section \<open>Properties of the fused retrieval\<close>

lemma retrieveContextGracefully_resultsIfSucceeded:
  "retrieveContextGracefully outcome = resultsIfSucceeded outcome"
  by (cases outcome) (simp_all add: retrieveContextGracefully_def resultsIfSucceeded_def)

lemma searchSymf_no_runner: "searchSymf env None editor input b = Inr []"
  by (simp add: searchSymf_def)

lemma searchRemote_no_provider: "searchRemote None input = Inr []"
  by (simp add: searchRemote_def)

lemma searchSymf_emptySymf:
  "resultsIfSucceeded (searchSymf env emptySymf editor input False) = []"
  by (simp add: searchSymf_def emptySymf_def resultsIfSucceeded_def sortItems_def
      split: option.splits)

lemma getEnhancedContextFused_fusion:
  assumes "optStrategy opts \<noteq> UseNone"
  shows "getEnhancedContextFused env ws opts =
     (case getPriorityContext (optText opts) (optEditor opts) ws (fusionOfSucceeded env opts) of
        Inl e \<Rightarrow> Inl e
      | Inr priorityContext \<Rightarrow> Inr (priorityContext @ fusionOfSucceeded env opts))"
proof -
  have loc: "(if symf (optProviders opts) \<noteq> None \<and> optStrategy opts \<noteq> UseEmbeddings
              then retrieveContextGracefully
                     (searchSymf env (symf (optProviders opts)) (optEditor opts) (optText opts) False)
              else [])
           = (if optStrategy opts = UseEmbeddings then []
              else resultsIfSucceeded
                     (searchSymf env (symf (optProviders opts)) (optEditor opts) (optText opts) False))"
    by (cases "symf (optProviders opts)")
      (simp_all add: retrieveContextGracefully_resultsIfSucceeded searchSymf_no_runner
        resultsIfSucceeded_def)
  have rem: "(if remoteSearch (optProviders opts) \<noteq> None \<and> optStrategy opts \<noteq> UseEmbeddings
              then retrieveContextGracefully
                     (searchRemote (remoteSearch (optProviders opts)) (optText opts))
              else [])
           = (if optStrategy opts = UseEmbeddings then []
              else resultsIfSucceeded
                     (searchRemote (remoteSearch (optProviders opts)) (optText opts)))"
    by (cases "remoteSearch (optProviders opts)")
      (simp_all add: retrieveContextGracefully_resultsIfSucceeded searchRemote_no_provider
        resultsIfSucceeded_def)
  have emb: "(if optStrategy opts \<noteq> UseKeyword
              then retrieveContextGracefully
                     (searchEmbeddingsLocal (localEmbeddings (optProviders opts)) (optText opts))
              else [])
           = (if optStrategy opts = UseKeyword then []
              else resultsIfSucceeded
                     (searchEmbeddingsLocal (localEmbeddings (optProviders opts)) (optText opts)))"
    by (simp add: retrieveContextGracefully_resultsIfSucceeded)
  show ?thesis
    unfolding getEnhancedContextFused_def Let_def loc rem emb fusionOfSucceeded_def
    using assms by simp
qed

lemma fusionOfSucceeded_embeddings_failed:
  assumes "searchEmbeddingsLocal (localEmbeddings (optProviders opts)) (optText opts) = Inl e"
  shows "fusionOfSucceeded env
           (opts\<lparr>optProviders := (optProviders opts)\<lparr>localEmbeddings := emptyEmbeddings\<rparr>\<rparr>)
         = fusionOfSucceeded env opts"
  using assms
  by (simp add: fusionOfSucceeded_def resultsIfSucceeded_def emptyEmbeddings_def
      searchEmbeddingsLocal_def)

lemma fusionOfSucceeded_symf_failed:
  assumes "searchSymf env (symf (optProviders opts)) (optEditor opts) (optText opts) False = Inl e"
  shows "fusionOfSucceeded env
           (opts\<lparr>optProviders := (optProviders opts)\<lparr>symf := emptySymf\<rparr>\<rparr>)
         = fusionOfSucceeded env opts"
  using assms searchSymf_emptySymf [of env "optEditor opts" "optText opts"]
  by (simp add: fusionOfSucceeded_def resultsIfSucceeded_def)

lemma fusionOfSucceeded_remote_failed:
  assumes "searchRemote (remoteSearch (optProviders opts)) (optText opts) = Inl e"
  shows "fusionOfSucceeded env
           (opts\<lparr>optProviders := (optProviders opts)\<lparr>remoteSearch := emptyRemoteSearch\<rparr>\<rparr>)
         = fusionOfSucceeded env opts"
  using assms
  by (simp add: fusionOfSucceeded_def resultsIfSucceeded_def emptyRemoteSearch_def
      searchRemote_def)

text \<open>
  C3. For every query on the fused path (strategy not \<^verbatim>\<open>none\<close>), whatever each
  provider call does (resolve or reject):
  \<^item> the result is the priority context followed by the fusion of the results of the
    providers that succeeded, a failed provider counting as the empty list;
  \<^item> no failure of a provider leaves \<open>getEnhancedContextFused\<close>: when it fails, the
    error is the one of reading the README for the priority context, and when that
    read does not fail the function returns a list;
  \<^item> a provider whose call fails can be replaced by a provider that answers with the
    empty list without changing the result (local embeddings, symf, remote search).
\<close>

theorem getEnhancedContextFused_provider_failures:
  assumes "optStrategy opts \<noteq> UseNone"
  shows "getEnhancedContextFused env ws opts =
           (case getPriorityContext (optText opts) (optEditor opts) ws (fusionOfSucceeded env opts) of
              Inl e \<Rightarrow> Inl e
            | Inr priorityContext \<Rightarrow> Inr (priorityContext @ fusionOfSucceeded env opts))
       \<and> (\<forall>e. getEnhancedContextFused env ws opts = Inl e \<longrightarrow> getReadmeContext ws = Inl e)
       \<and> (\<not> isl (getReadmeContext ws) \<longrightarrow> \<not> isl (getEnhancedContextFused env ws opts))
       \<and> (isl (searchEmbeddingsLocal (localEmbeddings (optProviders opts)) (optText opts)) \<longrightarrow>
            getEnhancedContextFused env ws
              (opts\<lparr>optProviders := (optProviders opts)\<lparr>localEmbeddings := emptyEmbeddings\<rparr>\<rparr>)
            = getEnhancedContextFused env ws opts)
       \<and> (isl (searchSymf env (symf (optProviders opts)) (optEditor opts) (optText opts) False) \<longrightarrow>
            getEnhancedContextFused env ws
              (opts\<lparr>optProviders := (optProviders opts)\<lparr>symf := emptySymf\<rparr>\<rparr>)
            = getEnhancedContextFused env ws opts)
       \<and> (isl (searchRemote (remoteSearch (optProviders opts)) (optText opts)) \<longrightarrow>
            getEnhancedContextFused env ws
              (opts\<lparr>optProviders := (optProviders opts)\<lparr>remoteSearch := emptyRemoteSearch\<rparr>\<rparr>)
            = getEnhancedContextFused env ws opts)"
proof -
  let ?fused = "fusionOfSucceeded env opts"
  let ?prio = "getPriorityContext (optText opts) (optEditor opts) ws ?fused"
  have eq: "getEnhancedContextFused env ws opts =
           (case ?prio of Inl e \<Rightarrow> Inl e | Inr p \<Rightarrow> Inr (p @ ?fused))"
    by (rule getEnhancedContextFused_fusion [OF assms])
  have err: "getReadmeContext ws = Inl e" if "getEnhancedContextFused env ws opts = Inl e" for e
  proof -
    from that eq have "?prio = Inl e" by (cases ?prio) simp_all
    then show ?thesis by (rule getPriorityContext_error)
  qed
  have ret: "\<not> isl (getEnhancedContextFused env ws opts)" if "\<not> isl (getReadmeContext ws)"
  proof
    assume "isl (getEnhancedContextFused env ws opts)"
    then obtain e where "getEnhancedContextFused env ws opts = Inl e"
      by (cases "getEnhancedContextFused env ws opts") simp_all
    from err [OF this] that show False by simp
  qed
  have same: "getEnhancedContextFused env ws opts' = getEnhancedContextFused env ws opts"
    if "fusionOfSucceeded env opts' = ?fused" "optStrategy opts' = optStrategy opts"
       "optText opts' = optText opts" "optEditor opts' = optEditor opts" for opts'
  proof -
    from that(2) assms have "optStrategy opts' \<noteq> UseNone" by simp
    from getEnhancedContextFused_fusion [OF this, of env ws] that eq show ?thesis
      by (simp split: sum.splits)
  qed
  have e1: "getEnhancedContextFused env ws
              (opts\<lparr>optProviders := (optProviders opts)\<lparr>localEmbeddings := emptyEmbeddings\<rparr>\<rparr>)
            = getEnhancedContextFused env ws opts"
    if "isl (searchEmbeddingsLocal (localEmbeddings (optProviders opts)) (optText opts))"
  proof -
    from that obtain e where
      "searchEmbeddingsLocal (localEmbeddings (optProviders opts)) (optText opts) = Inl e"
      by (cases "searchEmbeddingsLocal (localEmbeddings (optProviders opts)) (optText opts)")
        simp_all
    from fusionOfSucceeded_embeddings_failed [OF this, of env] show ?thesis
      by (intro same) simp_all
  qed
  have e2: "getEnhancedContextFused env ws
              (opts\<lparr>optProviders := (optProviders opts)\<lparr>symf := emptySymf\<rparr>\<rparr>)
            = getEnhancedContextFused env ws opts"
    if "isl (searchSymf env (symf (optProviders opts)) (optEditor opts) (optText opts) False)"
  proof -
    from that obtain e where
      "searchSymf env (symf (optProviders opts)) (optEditor opts) (optText opts) False = Inl e"
      by (cases "searchSymf env (symf (optProviders opts)) (optEditor opts) (optText opts) False")
        simp_all
    from fusionOfSucceeded_symf_failed [OF this] show ?thesis
      by (intro same) simp_all
  qed
  have e3: "getEnhancedContextFused env ws
              (opts\<lparr>optProviders := (optProviders opts)\<lparr>remoteSearch := emptyRemoteSearch\<rparr>\<rparr>)
            = getEnhancedContextFused env ws opts"
    if "isl (searchRemote (remoteSearch (optProviders opts)) (optText opts))"
  proof -
    from that obtain e where
      "searchRemote (remoteSearch (optProviders opts)) (optText opts) = Inl e"
      by (cases "searchRemote (remoteSearch (optProviders opts)) (optText opts)") simp_all
    from fusionOfSucceeded_remote_failed [OF this, of env] show ?thesis
      by (intro same) simp_all
  qed
  from eq err ret e1 e2 e3 show ?thesis by blast
qed

theorem getEnhancedContextFused_provider_failures_witness:
  "optStrategy sampleOptions \<noteq> UseNone
   \<and> searchEmbeddingsLocal (localEmbeddings (optProviders sampleOptions)) (optText sampleOptions)
       = Inl (Error ''index not loaded'')
   \<and> getEnhancedContextFused noEnv sampleWorkspace sampleOptions
       = Inr [\<lparr>itemText = ''remote hit'', itemUri = sampleUri,
               itemRange = Some \<lparr>startLine = 1, startCharacter = 0, endLine = 2, endCharacter = 0\<rparr>,
               itemSource = Unified, repoName = Some ''github.com/a/b'',
               title = Some ''src/a.ts'', revision = Some ''abc''\<rparr>]
   \<and> getEnhancedContextFused noEnv sampleWorkspace
        (sampleOptions\<lparr>optProviders :=
           (optProviders sampleOptions)\<lparr>localEmbeddings := emptyEmbeddings\<rparr>\<rparr>)
       = getEnhancedContextFused noEnv sampleWorkspace sampleOptions"
proof -
  have h: "optStrategy sampleOptions \<noteq> UseNone"
    by (simp add: sampleOptions_def)
  have f: "searchEmbeddingsLocal (localEmbeddings (optProviders sampleOptions))
             (optText sampleOptions) = Inl (Error ''index not loaded'')"
    by (simp add: sampleOptions_def searchEmbeddingsLocal_def)
  have fused: "fusionOfSucceeded noEnv sampleOptions =
      [\<lparr>itemText = ''remote hit'', itemUri = sampleUri,
        itemRange = Some \<lparr>startLine = 1, startCharacter = 0, endLine = 2, endCharacter = 0\<rparr>,
        itemSource = Unified, repoName = Some ''github.com/a/b'',
        title = Some ''src/a.ts'', revision = Some ''abc''\<rparr>]"
    by (simp add: fusionOfSucceeded_def sampleOptions_def searchSymf_def searchRemote_def
        searchEmbeddingsLocal_def resultsIfSucceeded_def sampleRemoteResult_def mkRange_def
        fuseContext_def afterKeywordLoop_def maxKeywordChars_def Let_def)
  have prio: "getPriorityContext ''hello'' idleEditor sampleWorkspace retrieved = Inr []"
    for retrieved
  proof -
    have "priorityBranch ''hello'' idleEditor = NoBranch" by code_simp
    then show ?thesis by (simp add: getPriorityContext_branch)
  qed
  note main = getEnhancedContextFused_provider_failures [OF h, of noEnv sampleWorkspace]
  from main fused prio
  have r: "getEnhancedContextFused noEnv sampleWorkspace sampleOptions
       = Inr [\<lparr>itemText = ''remote hit'', itemUri = sampleUri,
               itemRange = Some \<lparr>startLine = 1, startCharacter = 0, endLine = 2, endCharacter = 0\<rparr>,
               itemSource = Unified, repoName = Some ''github.com/a/b'',
               title = Some ''src/a.ts'', revision = Some ''abc''\<rparr>]"
    by (simp add: sampleOptions_def)
  from main f
  have s: "getEnhancedContextFused noEnv sampleWorkspace
        (sampleOptions\<lparr>optProviders :=
           (optProviders sampleOptions)\<lparr>localEmbeddings := emptyEmbeddings\<rparr>\<rparr>)
       = getEnhancedContextFused noEnv sampleWorkspace sampleOptions"
    by simp
  from h f r s show ?thesis by blast
qed


section \<open>Properties of the feature flag provider\<close>

lemma splitChar_nonempty: "splitChar sep cur s \<noteq> []"
  by (induction s arbitrary: cur) simp_all

lemma notifyFeatureFlagChanged_featureFlags:
  "featureFlags (notifyFeatureFlagChanged st) = featureFlags st"
  by (simp add: notifyFeatureFlagChanged_def split: prod.splits)

lemma cachedFlag_after_update:
  "cachedFlag (st\<lparr>featureFlags := AList.update endpoint (AList.update flagName b flags)
                                    (featureFlags st)\<rparr>) endpoint flagName = Some b"
  by (simp add: cachedFlag_def update_conv)

lemma evaluateFeatureFlagResume_stores:
  "evaluateFeatureFlagResume endpoint flagName (Inr v) st = (r, st') \<Longrightarrow>
     r = Inr (Some (case v of FlagNull \<Rightarrow> False | FlagError m \<Rightarrow> False | FlagValue b \<Rightarrow> b))
     \<and> cachedFlag st' endpoint flagName
         = Some (case v of FlagNull \<Rightarrow> False | FlagError m \<Rightarrow> False | FlagValue b \<Rightarrow> b)"
  by (auto simp: evaluateFeatureFlagResume_def Let_def notifyFeatureFlagChanged_featureFlags
      cachedFlag_def update_conv)

text \<open>
  C7. For every flag name, endpoint and state of the provider at the moment the
  remote evaluation answers: when the answer is an error value or \<^verbatim>\<open>null\<close>, the
  method returns \<open>False\<close> (it does not fail) and the cache then holds \<open>False\<close> for
  that flag and endpoint. So does the whole call, from a state whose cache has no
  value for the flag (and with the benchmark switch off).
\<close>

theorem evaluateFeatureFlag_fail_closed:
  assumes "v = FlagNull \<or> v = FlagError m"
  shows "fst (evaluateFeatureFlagResume endpoint flagName (Inr v) st) = Inr (Some False)
       \<and> cachedFlag (snd (evaluateFeatureFlagResume endpoint flagName (Inr v) st))
            endpoint flagName = Some False
       \<and> (\<not> benchmarkDisabled \<and> cachedFlag st apiEndpoint flagName = None \<longrightarrow>
            fst (evaluateFeatureFlag benchmarkDisabled apiEndpoint now flagName (Inr v) st)
              = Inr (Some False)
            \<and> cachedFlag (snd (evaluateFeatureFlag benchmarkDisabled apiEndpoint now flagName
                                 (Inr v) st)) apiEndpoint flagName = Some False)"
proof -
  have stored: "(case v of FlagNull \<Rightarrow> False | FlagError m \<Rightarrow> False | FlagValue b \<Rightarrow> b) = False"
    using assms by auto
  have resume: "fst (evaluateFeatureFlagResume e flagName (Inr v) s) = Inr (Some False)
       \<and> cachedFlag (snd (evaluateFeatureFlagResume e flagName (Inr v) s)) e flagName
           = Some False" for e s
    using evaluateFeatureFlagResume_stores
      [of e flagName v s "fst (evaluateFeatureFlagResume e flagName (Inr v) s)"
         "snd (evaluateFeatureFlagResume e flagName (Inr v) s)"] stored
    by simp
  have whole: "fst (evaluateFeatureFlag benchmarkDisabled apiEndpoint now flagName (Inr v) st)
              = Inr (Some False)
            \<and> cachedFlag (snd (evaluateFeatureFlag benchmarkDisabled apiEndpoint now flagName
                                 (Inr v) st)) apiEndpoint flagName = Some False"
    if off: "\<not> benchmarkDisabled" and miss: "cachedFlag st apiEndpoint flagName = None"
  proof -
    let ?st1 = "snd (getFromCache apiEndpoint now flagName apiEndpoint st)"
    have "fst (getFromCache apiEndpoint now flagName apiEndpoint st) = None"
      using miss
      by (simp add: getFromCache_def cachedFlag_def refreshFeatureFlagsStart_def Let_def)
    then have "evaluateFeatureFlag benchmarkDisabled apiEndpoint now flagName (Inr v) st
               = evaluateFeatureFlagResume apiEndpoint flagName (Inr v) ?st1"
      using off by (cases "getFromCache apiEndpoint now flagName apiEndpoint st")
        (simp add: evaluateFeatureFlag_def Let_def)
    with resume [of apiEndpoint ?st1] show ?thesis by simp
  qed
  from resume [of endpoint st] whole show ?thesis by blast
qed

theorem evaluateFeatureFlag_fail_closed_witness:
  "(FlagError ''network'' = FlagNull \<or> FlagError ''network'' = FlagError ''network'')
   \<and> cachedFlag newFeatureFlagProvider sampleEndpoint ''cody-pro-jetbrains'' = None
   \<and> fst (evaluateFeatureFlag False sampleEndpoint 5000 ''cody-pro-jetbrains''
            (Inr (FlagError ''network'')) newFeatureFlagProvider) = Inr (Some False)
   \<and> featureFlags (snd (evaluateFeatureFlag False sampleEndpoint 5000 ''cody-pro-jetbrains''
            (Inr (FlagError ''network'')) newFeatureFlagProvider))
       = [(sampleEndpoint, [(''cody-pro-jetbrains'', False)])]"
proof -
  have miss: "cachedFlag newFeatureFlagProvider sampleEndpoint ''cody-pro-jetbrains'' = None"
    by (simp add: cachedFlag_def newFeatureFlagProvider_def)
  have hyp: "FlagError ''network'' = FlagNull \<or> FlagError ''network'' = FlagError ''network''"
    by simp
  from evaluateFeatureFlag_fail_closed
    [OF hyp, of sampleEndpoint "''cody-pro-jetbrains''" newFeatureFlagProvider False
       sampleEndpoint 5000] miss
  have r: "fst (evaluateFeatureFlag False sampleEndpoint 5000 ''cody-pro-jetbrains''
            (Inr (FlagError ''network'')) newFeatureFlagProvider) = Inr (Some False)"
    by simp
  have c: "featureFlags (snd (evaluateFeatureFlag False sampleEndpoint 5000 ''cody-pro-jetbrains''
            (Inr (FlagError ''network'')) newFeatureFlagProvider))
       = [(sampleEndpoint, [(''cody-pro-jetbrains'', False)])]"
    by (simp add: evaluateFeatureFlag_def getFromCache_def evaluateFeatureFlagResume_def
        refreshFeatureFlagsStart_def notifyFeatureFlagChanged_def newFeatureFlagProvider_def
        ONE_HOUR_def Let_def)
  from hyp miss r c show ?thesis by blast
qed

text \<open>
  The entry of a new subscription is stored under \<^verbatim>\<open>prefixFilter\<close>, and the function
  returned looks it up under \<^verbatim>\<open>endpoint + '#' + prefixFilter\<close>: from a provider with
  no subscription and no timer, for every endpoint, prefix and callback, the
  returned function changes nothing, and the timer armed by the subscription stays.
\<close>

lemma unsubscribe_after_first_subscription:
  assumes "subscriptions st = []" and "nextRefreshTimeout st = None"
    and "onFeatureFlagChanged endpoint prefixFilter callback st = (u, st1)"
  shows "unsubscribe u st1 = st1
       \<and> nextRefreshTimeout st1 = Some (nextTimerId st)
       \<and> pendingTimers st1 = pendingTimers st @ [(nextTimerId st, ClearAndRefresh)]
       \<and> map callbacks (map snd (subscriptions st1)) = [[callback]]"
proof -
  have "length (endpoint @ ''#'' @ prefixFilter) \<noteq> length prefixFilter" by simp
  then have neq: "endpoint @ ''#'' @ prefixFilter \<noteq> prefixFilter" by metis
  from assms have u: "u = DeleteByKey (endpoint @ ''#'' @ prefixFilter) callback"
    by (auto simp: onFeatureFlagChanged_def Let_def)
  from assms have st1: "st1 = armRefreshTimeout ClearAndRefresh
      (st\<lparr>subscriptions :=
            [(prefixFilter, \<lparr>subId = nextSubId st,
                lastSnapshot = computeFeatureFlagSnapshot (featureFlags st) endpoint prefixFilter,
                callbacks = [callback]\<rparr>)],
          nextSubId := Suc (nextSubId st)\<rparr>)"
    by (auto simp: onFeatureFlagChanged_def Let_def)
  from neq have "map_of (subscriptions st1) (endpoint @ ''#'' @ prefixFilter) = None"
    by (simp add: st1 armRefreshTimeout_def)
  then have "unsubscribe u st1 = st1"
    by (simp add: u unsubscribe_def)
  then show ?thesis
    by (simp add: st1 armRefreshTimeout_def)
qed

text \<open>
  C8. A new provider, one subscription
  \<^verbatim>\<open>onFeatureFlagChanged('https://sourcegraph.com', 'cody-', callback)\<close>, then the
  returned function called. The subscription was stored under the key \<^verbatim>\<open>cody-\<close> and
  armed timer 1; the returned function looks under
  \<^verbatim>\<open>https://sourcegraph.com#cody-\<close>, finds nothing and leaves the state as it was: the
  callback is still registered and the refresh timer is still pending, though the only
  subscription has been cancelled.
\<close>

theorem unsubscribe_leaves_timer_armed:
  "subscriptions newFeatureFlagProvider = []
   \<and> pendingTimers newFeatureFlagProvider = []
   \<and> fst subscribedOnce = DeleteByKey ''https://sourcegraph.com#cody-'' 7
   \<and> subscriptions (snd subscribedOnce)
       = [(''cody-'', \<lparr>subId = 0, lastSnapshot = [], callbacks = [7]\<rparr>)]
   \<and> pendingTimers (snd subscribedOnce) = [(1, ClearAndRefresh)]
   \<and> unsubscribe (fst subscribedOnce) (snd subscribedOnce) = snd subscribedOnce
   \<and> subscriptions (unsubscribe (fst subscribedOnce) (snd subscribedOnce))
       = [(''cody-'', \<lparr>subId = 0, lastSnapshot = [], callbacks = [7]\<rparr>)]
   \<and> pendingTimers (unsubscribe (fst subscribedOnce) (snd subscribedOnce))
       = [(1, ClearAndRefresh)]
   \<and> nextRefreshTimeout (unsubscribe (fst subscribedOnce) (snd subscribedOnce)) = Some 1"
proof -
  have sub: "subscribedOnce =
      (DeleteByKey ''https://sourcegraph.com#cody-'' 7,
       newFeatureFlagProvider
         \<lparr>subscriptions := [(''cody-'', \<lparr>subId = 0, lastSnapshot = [], callbacks = [7]\<rparr>)],
          nextSubId := 1, nextRefreshTimeout := Some 1,
          pendingTimers := [(1, ClearAndRefresh)], nextTimerId := 2\<rparr>)"
    by (simp add: subscribedOnce_def onFeatureFlagChanged_def newFeatureFlagProvider_def
        sampleEndpoint_def computeFeatureFlagSnapshot_def armRefreshTimeout_def Let_def)
  have un: "unsubscribe (fst subscribedOnce) (snd subscribedOnce) = snd subscribedOnce"
    by (simp add: sub unsubscribe_def)
  show ?thesis
    unfolding un by (simp add: sub newFeatureFlagProvider_def)
qed

text \<open>
  C9. Two runs for the endpoint \<^verbatim>\<open>https://sourcegraph.com\<close> and the prefix \<^verbatim>\<open>cody-\<close>,
  each one subscription followed by one refresh that brings the flag
  \<^verbatim>\<open>cody-autocomplete-tracing\<close>.
  \<^item> Subscribed with an empty cache: the snapshot recorded is empty, after the refresh
    the serialization of the endpoint's flags with the prefix is not, and the
    callback is not called.
  \<^item> Subscribed with the flag already cached: the refresh brings the same flags, the
    serialization does not change, and the callback is called.
  In both runs the refresh computes the snapshot for the endpoint \<^verbatim>\<open>cody-\<close> and the
  prefix \<^verbatim>\<open>undefined\<close>, the pieces of the key the entry was stored under.
\<close>

theorem notification_ignores_subscribed_prefix:
  "map (lastSnapshot \<circ> snd) (subscriptions (snd subscribedOnce)) = [[]]
   \<and> computeFeatureFlagSnapshot (featureFlags refreshedOnce) sampleEndpoint ''cody-''
       = ''{'' @ [CHR 0x22] @ ''cody-autocomplete-tracing'' @ [CHR 0x22] @ '':true}''
   \<and> notified refreshedOnce = []
   \<and> map (lastSnapshot \<circ> snd) (subscriptions (snd subscribedWithFlags))
       = [''{'' @ [CHR 0x22] @ ''cody-autocomplete-tracing'' @ [CHR 0x22] @ '':true}'']
   \<and> featureFlags refreshedWithFlags = featureFlags (snd subscribedWithFlags)
   \<and> computeFeatureFlagSnapshot (featureFlags refreshedWithFlags) sampleEndpoint ''cody-''
       = ''{'' @ [CHR 0x22] @ ''cody-autocomplete-tracing'' @ [CHR 0x22] @ '':true}''
   \<and> notified refreshedWithFlags = [7]
   \<and> map (lastSnapshot \<circ> snd) (subscriptions refreshedWithFlags) = [[]]"
proof -
  have 1: "map (lastSnapshot \<circ> snd) (subscriptions (snd subscribedOnce)) = [[]]"
    by code_simp
  have 2: "computeFeatureFlagSnapshot (featureFlags refreshedOnce) sampleEndpoint ''cody-''
       = ''{'' @ [CHR 0x22] @ ''cody-autocomplete-tracing'' @ [CHR 0x22] @ '':true}''"
    by code_simp
  have 3: "notified refreshedOnce = []"
    by code_simp
  have 4: "map (lastSnapshot \<circ> snd) (subscriptions (snd subscribedWithFlags))
       = [''{'' @ [CHR 0x22] @ ''cody-autocomplete-tracing'' @ [CHR 0x22] @ '':true}'']"
    by code_simp
  have 5: "featureFlags refreshedWithFlags = featureFlags (snd subscribedWithFlags)"
    by code_simp
  have 6: "computeFeatureFlagSnapshot (featureFlags refreshedWithFlags) sampleEndpoint ''cody-''
       = ''{'' @ [CHR 0x22] @ ''cody-autocomplete-tracing'' @ [CHR 0x22] @ '':true}''"
    by code_simp
  have 7: "notified refreshedWithFlags = [7]"
    by code_simp
  have 8: "map (lastSnapshot \<circ> snd) (subscriptions refreshedWithFlags) = [[]]"
    by code_simp
  from 1 2 3 4 5 6 7 8 show ?thesis by blast
qed


section \<open>Properties of the ignore helper\<close>

lemma splitChar_no_separator:
  "sep \<notin> set s \<Longrightarrow> splitChar sep cur (s @ r) = splitChar sep (cur @ s) r"
  by (induction s arbitrary: cur) auto

lemma splitChar_directoryPath:
  "list_all isPlainSegment segments \<Longrightarrow>
     splitChar CHR ''/'' cur (directoryPath segments @ CHR ''/'' # t)
       = cur # segments @ splitChar CHR ''/'' [] t"
proof (induction segments arbitrary: cur)
  case Nil
  then show ?case by (simp add: directoryPath_def)
next
  case (Cons s ss)
  from Cons.prems have s: "CHR ''/'' \<notin> set s"
    by (simp add: isPlainSegment_def)
  from Cons.prems have ss: "list_all isPlainSegment ss"
    by simp
  have "splitChar CHR ''/'' cur (directoryPath (s # ss) @ CHR ''/'' # t)
          = cur # splitChar CHR ''/'' [] (s @ (directoryPath ss @ CHR ''/'' # t))"
    by (simp add: directoryPath_def)
  also have "\<dots> = cur # splitChar CHR ''/'' s (directoryPath ss @ CHR ''/'' # t)"
    using splitChar_no_separator [OF s, of "[]"] by simp
  also have "\<dots> = cur # s # ss @ splitChar CHR ''/'' [] t"
    using Cons.IH [OF ss] by simp
  finally show ?case by simp
qed

lemma normalize_plain_segments:
  "list_all isPlainSegment segments \<Longrightarrow>
     foldl (normalizeStep b) stack segments = stack @ segments"
  by (induction segments arbitrary: stack) (simp_all add: normalizeStep_def isPlainSegment_def)

lemma joinSlash_directoryPath:
  "segments \<noteq> [] \<Longrightarrow> CHR ''/'' # joinSlash segments = directoryPath segments"
  by (induction segments rule: joinSlash.induct) (simp_all add: directoryPath_def)

lemma directoryPath_nonempty: "segments \<noteq> [] \<Longrightarrow> directoryPath segments \<noteq> []"
  by (cases segments) (simp_all add: directoryPath_def)

lemma joinSlash_plain_nonempty:
  "segments \<noteq> [] \<Longrightarrow> list_all isPlainSegment segments \<Longrightarrow> joinSlash segments \<noteq> []"
  by (induction segments rule: joinSlash.induct) (simp_all add: isPlainSegment_def)

lemma effective_directory_path:
  assumes ne: "segments \<noteq> []" and plain: "list_all isPlainSegment segments"
  shows "posixJoin [directoryPath segments @ ''/.cody/ignore'', ''..'', ''..'']
           = directoryPath segments"
proof -
  let ?p = "directoryPath segments @ ''/.cody/ignore/../..''"
  have joined: "joinSlash (filter (\<lambda>part. part \<noteq> [])
                  [directoryPath segments @ ''/.cody/ignore'', ''..'', ''..'']) = ?p"
    by simp
  have "splitChar CHR ''/'' [] ?p
          = [] # segments @ splitChar CHR ''/'' [] ''.cody/ignore/../..''"
    using splitChar_directoryPath [OF plain, of "[]" "''.cody/ignore/../..''"] by simp
  also have "splitChar CHR ''/'' [] ''.cody/ignore/../..'' = [''.cody'', ''ignore'', ''..'', ''..'']"
    by simp
  finally have pieces:
    "splitChar CHR ''/'' [] ?p = [] # segments @ [''.cody'', ''ignore'', ''..'', ''..'']" .
  have absolute: "prefix ''/'' ?p"
    using ne by (cases segments) (simp_all add: directoryPath_def)
  have "foldl (normalizeStep True) [] ([] # segments @ [''.cody'', ''ignore'', ''..'', ''..''])
          = foldl (normalizeStep True) segments [''.cody'', ''ignore'', ''..'', ''..'']"
    using normalize_plain_segments [OF plain, of True "[]"]
    by (simp add: normalizeStep_def)
  also have "\<dots> = segments"
    by (simp add: normalizeStep_def butlast_append)
  finally have segs: "normalizedSegments ?p = segments"
    using absolute pieces by (simp add: normalizedSegments_def)
  have notTrailing: "\<not> suffix ''/'' ?p"
    by (simp add: suffix_def)
  have nonempty: "?p \<noteq> []" by simp
  have "posixNormalize ?p = CHR ''/'' # joinSlash segments"
    using absolute notTrailing joinSlash_plain_nonempty [OF ne plain]
    unfolding posixNormalize_def Let_def segs
    by (simp del: prefix_code)
  with joinSlash_directoryPath [OF ne] show ?thesis
    unfolding posixJoin_def joined by simp
qed

text \<open>
  C6. With the feature active and the root \<^verbatim>\<open>file:///w\<close> registered with the single
  ignore file \<^verbatim>\<open>file:///w/.cody/ignore\<close> holding \<^verbatim>\<open>build/\<close>, the rule set of the root is
  \<^verbatim>\<open>.env\<close>, \<^verbatim>\<open>build/\<close>; \<open>isIgnored\<close> gives true for \<^verbatim>\<open>file:///w/build/out.js\<close> and false
  for \<^verbatim>\<open>file:///w/src/out.js\<close>. The effective directory of an ignore file
  \<^verbatim>\<open><dir>/.cody/ignore\<close> is \<^verbatim>\<open><dir>\<close>, two segments up, for every normalised absolute
  directory; its rules are taken relative to that directory: the same file in
  \<^verbatim>\<open>/w/sub/.cody/ignore\<close> gives the rule \<^verbatim>\<open>sub/build/\<close>, which ignores
  \<^verbatim>\<open>/w/sub/build/out.js\<close> and not \<^verbatim>\<open>/w/build/out.js\<close>.
\<close>

theorem isIgnored_scenario:
  "scenarioHelper
     = Inr \<lparr>workspaceIgnores = [(''file:///w'', [''.env'', ''build/''])], isActive = True\<rparr>
   \<and> isIgnored \<lparr>workspaceIgnores = [(''file:///w'', [''.env'', ''build/''])], isActive = True\<rparr>
        (fileUri ''/w/build/out.js'') = Inr True
   \<and> isIgnored \<lparr>workspaceIgnores = [(''file:///w'', [''.env'', ''build/''])], isActive = True\<rparr>
        (fileUri ''/w/src/out.js'') = Inr False
   \<and> (segments \<noteq> [] \<and> list_all isPlainSegment segments \<longrightarrow>
        ignoreFileEffectiveDirectory (u\<lparr>path := directoryPath segments @ ''/.cody/ignore''\<rparr>)
          = u\<lparr>path := directoryPath segments\<rparr>)
   \<and> nestedHelper
       = Inr \<lparr>workspaceIgnores = [(''file:///w'', [''.env'', ''sub/build/''])], isActive = True\<rparr>
   \<and> isIgnored \<lparr>workspaceIgnores = [(''file:///w'', [''.env'', ''sub/build/''])], isActive = True\<rparr>
        (fileUri ''/w/sub/build/out.js'') = Inr True
   \<and> isIgnored \<lparr>workspaceIgnores = [(''file:///w'', [''.env'', ''sub/build/''])], isActive = True\<rparr>
        (fileUri ''/w/build/out.js'') = Inr False"
proof -
  have 1: "scenarioHelper
     = Inr \<lparr>workspaceIgnores = [(''file:///w'', [''.env'', ''build/''])], isActive = True\<rparr>"
    by code_simp
  have 2: "isIgnored \<lparr>workspaceIgnores = [(''file:///w'', [''.env'', ''build/''])], isActive = True\<rparr>
        (fileUri ''/w/build/out.js'') = Inr True"
    by code_simp
  have 3: "isIgnored \<lparr>workspaceIgnores = [(''file:///w'', [''.env'', ''build/''])], isActive = True\<rparr>
        (fileUri ''/w/src/out.js'') = Inr False"
    by code_simp
  have 4: "ignoreFileEffectiveDirectory (u\<lparr>path := directoryPath segments @ ''/.cody/ignore''\<rparr>)
          = u\<lparr>path := directoryPath segments\<rparr>"
    if "segments \<noteq> []" "list_all isPlainSegment segments"
    using effective_directory_path [OF that]
    by (simp add: ignoreFileEffectiveDirectory_def joinPath_def)
  have 5: "nestedHelper
       = Inr \<lparr>workspaceIgnores = [(''file:///w'', [''.env'', ''sub/build/''])], isActive = True\<rparr>"
    by code_simp
  have 6: "isIgnored \<lparr>workspaceIgnores = [(''file:///w'', [''.env'', ''sub/build/''])], isActive = True\<rparr>
        (fileUri ''/w/sub/build/out.js'') = Inr True"
    by code_simp
  have 7: "isIgnored \<lparr>workspaceIgnores = [(''file:///w'', [''.env'', ''sub/build/''])], isActive = True\<rparr>
        (fileUri ''/w/build/out.js'') = Inr False"
    by code_simp
  from 1 2 3 4 5 6 7 show ?thesis by blast
qed

theorem isIgnored_scenario_witness:
  "[''w''] \<noteq> [] \<and> list_all isPlainSegment [''w'']
   \<and> directoryPath [''w''] = ''/w''
   \<and> ignoreFileEffectiveDirectory (fileUri ''/w/.cody/ignore'') = fileUri ''/w''
   \<and> relativePath (fileUri ''/w'') (ignoreFileEffectiveDirectory (fileUri ''/w/.cody/ignore'')) = []"
proof -
  have a: "[''w''] \<noteq> [] \<and> list_all isPlainSegment [''w'']"
    by (simp add: isPlainSegment_def)
  have d: "directoryPath [''w''] = ''/w''"
    by (simp add: directoryPath_def)
  from isIgnored_scenario [of "[''w'']" "fileUri ''/w''"] a d
  have e: "ignoreFileEffectiveDirectory (fileUri ''/w/.cody/ignore'') = fileUri ''/w''"
    by (simp add: fileUri_def)
  have r: "relativePath (fileUri ''/w'') (fileUri ''/w'') = []"
    by code_simp
  from a d e r show ?thesis by simp
qed

end
